theory Spec2Isabelle
  imports Complex_Main "HOL-Library.Word"
begin

section \<open>Machine numbers\<close>

text \<open>
  The C++ sources use \<^verbatim>\<open>unsigned\<close> for robot identifiers, dimensions and counters,
  \<^verbatim>\<open>size_t\<close> for pose identifiers in measurements and \<^verbatim>\<open>double\<close> for every scalar.
  Unsigned arithmetic wraps around, so both integer types are words.
\<close>

type_synonym unsigned = "32 word"
type_synonym size_t = "64 word"

text \<open>
  A \<^verbatim>\<open>double\<close> is a real number or one of the IEEE special values. Rounding, overflow
  to infinity and the sign of zero are not modelled: an operation on finite values
  returns the exact real result, and a zero divisor counts as \<open>+0\<close>. What is modelled
  is what the control flow of the agent can observe: division by zero and comparisons
  with a NaN, which are all false.
\<close>

datatype double = Finite real | PInf | NInf | NaN

fun dneg :: "double \<Rightarrow> double" where
  "dneg (Finite a) = Finite (- a)"
| "dneg PInf = NInf"
| "dneg NInf = PInf"
| "dneg NaN = NaN"

fun dadd :: "double \<Rightarrow> double \<Rightarrow> double" where
  "dadd (Finite a) (Finite b) = Finite (a + b)"
| "dadd NaN _ = NaN"
| "dadd _ NaN = NaN"
| "dadd PInf NInf = NaN"
| "dadd NInf PInf = NaN"
| "dadd PInf _ = PInf"
| "dadd _ PInf = PInf"
| "dadd NInf _ = NInf"
| "dadd _ NInf = NInf"

definition dsub :: "double \<Rightarrow> double \<Rightarrow> double" where
  "dsub a b = dadd a (dneg b)"

text \<open>The sign of an infinite product or quotient: \<open>0\<close> makes it a NaN.\<close>

definition signed_inf :: "real \<Rightarrow> double" where
  "signed_inf s = (if s > 0 then PInf else if s < 0 then NInf else NaN)"

fun dmul :: "double \<Rightarrow> double \<Rightarrow> double" where
  "dmul (Finite a) (Finite b) = Finite (a * b)"
| "dmul NaN _ = NaN"
| "dmul _ NaN = NaN"
| "dmul (Finite a) PInf = signed_inf a"
| "dmul (Finite a) NInf = signed_inf (- a)"
| "dmul PInf (Finite b) = signed_inf b"
| "dmul NInf (Finite b) = signed_inf (- b)"
| "dmul PInf PInf = PInf"
| "dmul NInf NInf = PInf"
| "dmul PInf NInf = NInf"
| "dmul NInf PInf = NInf"

fun ddiv :: "double \<Rightarrow> double \<Rightarrow> double" where
  "ddiv (Finite a) (Finite b) = (if b = 0 then signed_inf a else Finite (a / b))"
| "ddiv NaN _ = NaN"
| "ddiv _ NaN = NaN"
| "ddiv (Finite a) PInf = Finite 0"
| "ddiv (Finite a) NInf = Finite 0"
| "ddiv PInf (Finite b) = (if b < 0 then NInf else PInf)"
| "ddiv NInf (Finite b) = (if b < 0 then PInf else NInf)"
| "ddiv PInf PInf = NaN"
| "ddiv PInf NInf = NaN"
| "ddiv NInf PInf = NaN"
| "ddiv NInf NInf = NaN"

fun dsqrt :: "double \<Rightarrow> double" where
  "dsqrt (Finite a) = (if a < 0 then NaN else Finite (sqrt a))"
| "dsqrt PInf = PInf"
| "dsqrt NInf = NaN"
| "dsqrt NaN = NaN"

text \<open>The comparison \<^verbatim>\<open>a < b\<close> of two doubles; \<^verbatim>\<open>a > b\<close> is \<open>dlt b a\<close>.\<close>

fun dlt :: "double \<Rightarrow> double \<Rightarrow> bool" where
  "dlt (Finite a) (Finite b) = (a < b)"
| "dlt NaN _ = False"
| "dlt _ NaN = False"
| "dlt _ NInf = False"
| "dlt PInf _ = False"
| "dlt NInf _ = True"
| "dlt _ PInf = True"

definition dgt :: "double \<Rightarrow> double \<Rightarrow> bool" where
  "dgt a b = dlt b a"

text \<open>\<^verbatim>\<open>a <= b\<close> and \<^verbatim>\<open>a >= b\<close>: the readings of ``at most'' and ``at least''.\<close>

definition dle :: "double \<Rightarrow> double \<Rightarrow> bool" where
  "dle a b = (a \<noteq> NaN \<and> b \<noteq> NaN \<and> \<not> dlt b a)"

definition dge :: "double \<Rightarrow> double \<Rightarrow> bool" where
  "dge a b = dle b a"

text \<open>The conversion of an \<^verbatim>\<open>unsigned\<close> to \<^verbatim>\<open>double\<close> is exact.\<close>

definition of_unsigned :: "unsigned \<Rightarrow> double" where
  "of_unsigned n = Finite (real (unat n))"

section \<open>Aborting computations\<close>

text \<open>
  A failed \<^verbatim>\<open>CHECK\<close> and \<^verbatim>\<open>LOG(FATAL)\<close> abort the process, and so does the exception
  of an empty \<^verbatim>\<open>std::optional\<close>, which nothing catches; a remainder by zero, an index
  out of range and a read through the end iterator of an empty container are undefined
  behaviour. Each is a result of its own, so that no theorem below speaks about a run
  that did not return.
\<close>

datatype error = CheckFailed | Fatal | BadOptionalAccess | UndefinedBehaviour

definition ebind :: "error + 'a \<Rightarrow> ('a \<Rightarrow> error + 'b) \<Rightarrow> error + 'b" where
  "ebind m f = (case m of Inl e \<Rightarrow> Inl e | Inr x \<Rightarrow> f x)"

definition CHECK :: "bool \<Rightarrow> error + unit" where
  "CHECK b = (if b then Inr () else Inl CheckFailed)"

section \<open>Data model\<close>

text \<open>
  The class declarations live in headers that are not among the sources. The
  records below list exactly the members the embedded functions read or write, with
  the types their uses show (\<^verbatim>\<open>%u\<close> and \<^verbatim>\<open>%zu\<close> in the format strings, the
  arguments of the constructors).
\<close>

record PoseID =
  robot_id :: unsigned
  frame_id :: unsigned

text \<open>
  Modelled from the spec: the class \<^verbatim>\<open>LiftedPoseArray\<close> is not among the sources. An
  array of \<open>n\<close> lifted poses is an \<open>r \<times> n(d+1)\<close> matrix together with its three
  dimensions; \<^verbatim>\<open>getData\<close> reads the matrix and \<^verbatim>\<open>setData\<close> replaces it. A lifted pose
  is an array of one pose, a pose array has \<open>r = d\<close>, and a pose is both. The matrix
  type \<open>'m\<close> is a parameter of the agent.
\<close>

record 'm LiftedPoseArray =
  arr_r :: unsigned
  arr_d :: unsigned
  arr_n :: unsigned
  getData :: 'm

type_synonym 'm LiftedPose = "'m LiftedPoseArray"
type_synonym 'm PoseArray = "'m LiftedPoseArray"
type_synonym 'm Pose = "'m LiftedPoseArray"

definition setData :: "'m \<Rightarrow> 'm LiftedPoseArray \<Rightarrow> 'm LiftedPoseArray" where
  "setData M A = A\<lparr>getData := M\<rparr>"


record 'm RelativeSEMeasurement =
  r1 :: size_t
  r2 :: size_t
  p1 :: size_t
  p2 :: size_t
  meas_R :: 'm
  meas_t :: 'm
  kappa :: double
  tau :: double
  weight :: double
  fixedWeight :: bool
  isKnownInlier :: bool

datatype PGOAgentState = WAIT_FOR_DATA | WAIT_FOR_INITIALIZATION | INITIALIZED

record PGOAgentStatus =
  agentID :: unsigned
  state :: PGOAgentState
  instanceNumber :: unsigned
  iterationNumber :: unsigned
  readyToTerminate :: bool
  relativeChange :: double

datatype ROptMethod = RTR | RGD

datatype RobustCostType = L2 | TLS | Huber | Tukey | GM

record RobustCostParameters =
  costType :: RobustCostType

record PGOAgentParameters =
  params_d :: unsigned
  params_r :: unsigned
  numRobots :: unsigned
  algorithm :: ROptMethod
  acceleration :: bool
  restartInterval :: unsigned
  robustCostParams :: RobustCostParameters
  robustOptWarmStart :: bool
  robustOptInnerIters :: unsigned
  robustOptMinConvergenceRatio :: double
  robustInitMinInliers :: unsigned
  multirobot_initialization :: bool
  maxNumIters :: unsigned
  relChangeTol :: double
  verbose :: bool
  logData :: bool
  logDirectory :: string

text \<open>The counts of \<^verbatim>\<open>PoseGraph::statistics\<close> are doubles (they are printed with \<^verbatim>\<open>%f\<close>).\<close>

record Statistics =
  total_loop_closures :: double
  accept_loop_closures :: double
  reject_loop_closures :: double

text \<open>The settings \<^verbatim>\<open>updateX\<close> gives the optimizer before it calls \<^verbatim>\<open>optimize\<close>.\<close>

record OptimizerSettings =
  opt_verbose :: bool
  opt_algorithm :: ROptMethod
  trustRegionTolerance :: real
  trustRegionIterations :: nat
  trustRegionMaxInnerIterations :: nat
  trustRegionInitialRadius :: real

section \<open>The collaborators of the agent\<close>

text \<open>
  The agent calls into classes whose code is not among the sources: the pose graph,
  the pose classes, the manifold, the optimizer, the robust cost and the averaging
  routines, and into Eigen and ROPTLIB. They are parameters of the model, collected in
  one record: the matrix type \<open>'m\<close>, the pose graph \<open>'g\<close> and the robust cost \<open>'c\<close> are
  abstract, and every theorem about the agent holds for whatever these functions
  compute. A method that mutates its object returns the new object.
\<close>

record ('m, 'g, 'c) Env =
  \<comment> \<open>constructors\<close>
  newLiftedPoseArray :: "unsigned \<Rightarrow> unsigned \<Rightarrow> unsigned \<Rightarrow> 'm LiftedPoseArray"
  newPoseGraph :: "unsigned \<Rightarrow> unsigned \<Rightarrow> unsigned \<Rightarrow> 'g"
  newRobustCost :: "RobustCostParameters \<Rightarrow> 'c"
  \<comment> \<open>\<^verbatim>\<open>RobustCost\<close>: \<^verbatim>\<open>reset\<close>, \<^verbatim>\<open>update\<close>, \<^verbatim>\<open>weight\<close>\<close>
  cost_reset :: "'c \<Rightarrow> 'c"
  cost_update :: "'c \<Rightarrow> 'c"
  cost_weight :: "'c \<Rightarrow> double \<Rightarrow> double"
  \<comment> \<open>\<^verbatim>\<open>PoseGraph\<close>\<close>
  graph_n :: "'g \<Rightarrow> unsigned"
  neighborPublicPoseIDs :: "'g \<Rightarrow> PoseID set"
  sharedLoopClosuresWithRobot :: "'g \<Rightarrow> unsigned \<Rightarrow> 'm RelativeSEMeasurement list"
  privateLoopClosures :: "'g \<Rightarrow> 'm RelativeSEMeasurement list"
  set_privateLoopClosures :: "'m RelativeSEMeasurement list \<Rightarrow> 'g \<Rightarrow> 'g"
  sharedLoopClosures :: "'g \<Rightarrow> 'm RelativeSEMeasurement list"
  set_sharedLoopClosures :: "'m RelativeSEMeasurement list \<Rightarrow> 'g \<Rightarrow> 'g"
  clearDataMatrices :: "'g \<Rightarrow> 'g"
  setNeighborPoses :: "(PoseID \<rightharpoonup> 'm LiftedPose) \<Rightarrow> 'g \<Rightarrow> 'g"
  constructDataMatrices :: "'g \<Rightarrow> bool \<times> 'g"
  statistics :: "'g \<Rightarrow> Statistics"
  \<comment> \<open>\<^verbatim>\<open>LiftedPoseArray\<close> and \<^verbatim>\<open>Pose\<close>\<close>
  pose_at :: "'m LiftedPoseArray \<Rightarrow> size_t \<Rightarrow> 'm"
  set_pose_at :: "size_t \<Rightarrow> 'm \<Rightarrow> 'm LiftedPoseArray \<Rightarrow> 'm LiftedPoseArray"
  rotation_at :: "'m LiftedPoseArray \<Rightarrow> size_t \<Rightarrow> 'm"
  translation_at :: "'m LiftedPoseArray \<Rightarrow> size_t \<Rightarrow> 'm"
  set_rotation :: "'m \<Rightarrow> 'm Pose \<Rightarrow> 'm Pose"
  set_translation :: "'m \<Rightarrow> 'm Pose \<Rightarrow> 'm Pose"
  pose_Identity :: "unsigned \<Rightarrow> 'm Pose"
  pose_of_matrix :: "'m \<Rightarrow> 'm Pose"
  pose_inverse :: "'m Pose \<Rightarrow> 'm Pose"
  pose_times :: "'m Pose \<Rightarrow> 'm Pose \<Rightarrow> 'm Pose"
  averageTranslationDistance :: "'m LiftedPoseArray \<Rightarrow> 'm LiftedPoseArray \<Rightarrow> double"
  \<comment> \<open>Eigen\<close>
  rows :: "'m \<Rightarrow> nat"
  cols :: "'m \<Rightarrow> nat"
  mat_times :: "'m \<Rightarrow> 'm \<Rightarrow> 'm"
  mat_transpose :: "'m \<Rightarrow> 'm"
  mat_scale :: "double \<Rightarrow> 'm \<Rightarrow> 'm"
  mat_plus :: "'m \<Rightarrow> 'm \<Rightarrow> 'm"
  mat_minus :: "'m \<Rightarrow> 'm \<Rightarrow> 'm"
  \<comment> \<open>\<^verbatim>\<open>LiftedSEManifold::project\<close>, \<^verbatim>\<open>QuadraticOptimizer::optimize\<close>\<close>
  project :: "unsigned \<Rightarrow> unsigned \<Rightarrow> unsigned \<Rightarrow> 'm \<Rightarrow> 'm"
  optimize :: "'g \<Rightarrow> OptimizerSettings \<Rightarrow> 'm \<Rightarrow> 'm"
  \<comment> \<open>the averaging routines and the measurement error\<close>
  robustSingleRotationAveraging :: "'m list \<Rightarrow> double list \<Rightarrow> double \<Rightarrow> 'm \<times> nat list"
  singleTranslationAveraging :: "'m list \<Rightarrow> 'm"
  computeMeasurementError :: "'m RelativeSEMeasurement \<Rightarrow> 'm \<Rightarrow> 'm \<Rightarrow> 'm \<Rightarrow> 'm \<Rightarrow> double"

section \<open>The agent\<close>

record ('m, 'g, 'c) PGOAgent =
  mID :: unsigned
  agent_d :: unsigned
  agent_r :: unsigned
  agent_X :: "'m LiftedPoseArray"
  mParams :: PGOAgentParameters
  mState :: PGOAgentState
  mStatus :: PGOAgentStatus
  mRobustCost :: 'c
  mPoseGraph :: 'g
  mRate :: double
  mInstanceNumber :: unsigned
  mIterationNumber :: unsigned
  mNumPosesReceived :: unsigned
  gamma :: double
  alpha :: double
  agent_Y :: "'m LiftedPoseArray"
  agent_V :: "'m LiftedPoseArray"
  XPrev :: "'m LiftedPoseArray"
  XInit :: "'m LiftedPoseArray option"
  YLift :: "'m option"
  globalAnchor :: "'m LiftedPose option"
  TLocalInit :: "'m PoseArray option"
  neighborPoseDict :: "PoseID \<rightharpoonup> 'm LiftedPose"
  neighborAuxPoseDict :: "PoseID \<rightharpoonup> 'm LiftedPose"
  mTeamStatus :: "unsigned \<rightharpoonup> PGOAgentStatus"
  mOptimizationRequested :: bool
  mPublishPublicPosesRequested :: bool
  mPublishWeightsRequested :: bool
  \<comment> \<open>whether \<^verbatim>\<open>mOptimizationThread\<close> is not null\<close>
  mOptimizationThread :: bool
  mEndLoopRequested :: bool

text \<open>
  The members \<^verbatim>\<open>d\<close>, \<^verbatim>\<open>r\<close>, \<^verbatim>\<open>X\<close>, \<^verbatim>\<open>Y\<close> and \<^verbatim>\<open>V\<close> are \<open>agent_d\<close>, \<open>agent_r\<close>,
  \<open>agent_X\<close>, \<open>agent_Y\<close> and \<open>agent_V\<close>. The logger only writes files and is left out.
\<close>

definition getID :: "('m, 'g, 'c) PGOAgent \<Rightarrow> unsigned" where
  "getID a = mID a"

definition dimension :: "('m, 'g, 'c) PGOAgent \<Rightarrow> unsigned" where
  "dimension a = agent_d a"

definition relaxation_rank :: "('m, 'g, 'c) PGOAgent \<Rightarrow> unsigned" where
  "relaxation_rank a = agent_r a"

definition num_poses :: "('m, 'g, 'c) Env \<Rightarrow> ('m, 'g, 'c) PGOAgent \<Rightarrow> unsigned" where
  "num_poses env a = graph_n env (mPoseGraph a)"

definition instance_number :: "('m, 'g, 'c) PGOAgent \<Rightarrow> unsigned" where
  "instance_number a = mInstanceNumber a"

definition iteration_number :: "('m, 'g, 'c) PGOAgent \<Rightarrow> unsigned" where
  "iteration_number a = mIterationNumber a"

definition isOptimizationRunning :: "('m, 'g, 'c) PGOAgent \<Rightarrow> bool" where
  "isOptimizationRunning a = mOptimizationThread a"

text \<open>
  \<^verbatim>\<open>endOptimizationLoop\<close> raises the flag, joins the worker, deletes it and lowers the
  flag again. The model is sequential: the iterations the worker still runs before it
  sees the flag are calls of \<open>iterate\<close> and are not part of this function.
\<close>

definition endOptimizationLoop :: "('m, 'g, 'c) PGOAgent \<Rightarrow> ('m, 'g, 'c) PGOAgent" where
  "endOptimizationLoop a =
     (if \<not> isOptimizationRunning a then a
      else a\<lparr>mOptimizationThread := False, mEndLoopRequested := False\<rparr>)"

subsection \<open>reset\<close>

text \<open>
  With \<^verbatim>\<open>logData\<close> set, \<^verbatim>\<open>reset\<close> first writes the measurements, the rounded
  trajectory and the iterate to files. None of this changes the agent, but the call
  of \<^verbatim>\<open>getTrajectoryInGlobalFrame\<close> aborts when its two checks on the anchor fail.
\<close>

definition reset_logging :: "('m, 'g, 'c) PGOAgent \<Rightarrow> error + unit" where
  "reset_logging a =
     (if logData (mParams a) then
        (case globalAnchor a of
           None \<Rightarrow> Inr ()
         | Some Xa \<Rightarrow>
             ebind (CHECK (arr_r Xa = relaxation_rank a)) (\<lambda>_.
             CHECK (arr_d Xa = dimension a)))
      else Inr ())"

definition reset ::
  "('m, 'g, 'c) Env \<Rightarrow> ('m, 'g, 'c) PGOAgent \<Rightarrow> error + ('m, 'g, 'c) PGOAgent" where
  "reset env a0 =
     (let a1 = endOptimizationLoop a0 in
      ebind (reset_logging a1) (\<lambda>_.
      let a2 = a1\<lparr>mInstanceNumber := mInstanceNumber a1 + 1,
                  mIterationNumber := 0,
                  mNumPosesReceived := 0\<rparr>;
          a3 = a2\<lparr>mState := WAIT_FOR_DATA\<rparr>;
          a4 = a3\<lparr>mStatus := \<lparr>agentID = getID a3, state = mState a3,
                               instanceNumber = mInstanceNumber a3,
                               iterationNumber = mIterationNumber a3,
                               readyToTerminate = False,
                               relativeChange = Finite 0\<rparr>\<rparr>;
          a5 = a4\<lparr>neighborPoseDict := Map.empty,
                  neighborAuxPoseDict := Map.empty,
                  mTeamStatus := Map.empty\<rparr>;
          a6 = a5\<lparr>mRobustCost := cost_reset env (mRobustCost a5),
                  globalAnchor := None,
                  TLocalInit := None,
                  XInit := None\<rparr>;
          a7 = a6\<lparr>mOptimizationRequested := False,
                  mPublishPublicPosesRequested := False,
                  mPublishWeightsRequested := False\<rparr>
      in Inr (a7\<lparr>agent_X := newLiftedPoseArray env (agent_r a7) (agent_d a7) 1,
                 mPoseGraph := newPoseGraph env (mID a7) (agent_r a7) (agent_d a7)\<rparr>)))"

subsection \<open>The lifting matrix of robot 0\<close>

text \<open>
  Modelled from the spec: ROPTLIB's \<^verbatim>\<open>StieVariable::RandInManifold\<close> is not among the
  sources. The spec asks for a random point of the manifold that is ``seeded
  deterministically'': the point drawn is a function of the dimensions and of the
  state of the C library generator, which \<^verbatim>\<open>std::srand\<close> sets from its seed. The state
  \<open>'s\<close> of the generator is passed explicitly. (A library that kept a generator of
  its own would not be seeded by \<^verbatim>\<open>std::srand\<close>; nothing in the sources tells.)
\<close>

record ('m, 's) RandomSource =
  srand :: "unsigned \<Rightarrow> 's"
  RandInManifold :: "unsigned \<Rightarrow> unsigned \<Rightarrow> 's \<Rightarrow> 'm \<times> 's"

text \<open>The result is the \<open>r \<times> d\<close> matrix and the state the generator is left in.\<close>

definition fixedStiefelVariable ::
  "('m, 's) RandomSource \<Rightarrow> unsigned \<Rightarrow> unsigned \<Rightarrow> 's \<Rightarrow> 'm \<times> 's" where
  "fixedStiefelVariable rs d r s = (let s1 = srand rs 1 in RandInManifold rs r d s1)"

definition randomStiefelVariable ::
  "('m, 's) RandomSource \<Rightarrow> unsigned \<Rightarrow> unsigned \<Rightarrow> 's \<Rightarrow> 'm \<times> 's" where
  "randomStiefelVariable rs d r s = RandInManifold rs r d s"

definition setLiftingMatrix ::
  "('m, 'g, 'c) Env \<Rightarrow> 'm \<Rightarrow> ('m, 'g, 'c) PGOAgent \<Rightarrow> error + ('m, 'g, 'c) PGOAgent" where
  "setLiftingMatrix env M a =
     ebind (CHECK (rows env M = unat (agent_r a))) (\<lambda>_.
     ebind (CHECK (cols env M = unat (agent_d a))) (\<lambda>_.
     Inr (a\<lparr>YLift := Some M\<rparr>)))"

text \<open>
  The constructor. The members it does not name start empty: the optionals, the
  dictionaries, the request flags and the worker.
\<close>

definition new_PGOAgent ::
  "('m, 'g, 'c) Env \<Rightarrow> ('m, 's) RandomSource \<Rightarrow> unsigned \<Rightarrow> PGOAgentParameters \<Rightarrow> 's \<Rightarrow>
     error + (('m, 'g, 'c) PGOAgent \<times> 's)" where
  "new_PGOAgent env rs ID params s =
     (let X0 = newLiftedPoseArray env (params_r params) (params_d params) 1;
          a = \<lparr>mID = ID, agent_d = params_d params, agent_r = params_r params,
               agent_X = X0,
               mParams = params, mState = WAIT_FOR_DATA,
               mStatus = \<lparr>agentID = ID, state = WAIT_FOR_DATA, instanceNumber = 0,
                          iterationNumber = 0, readyToTerminate = False,
                          relativeChange = Finite 0\<rparr>,
               mRobustCost = newRobustCost env (robustCostParams params),
               mPoseGraph = newPoseGraph env ID (params_r params) (params_d params),
               mRate = Finite 10,
               mInstanceNumber = 0, mIterationNumber = 0, mNumPosesReceived = 0,
               gamma = Finite 0, alpha = Finite 0,
               agent_Y = X0, agent_V = X0, XPrev = X0,
               XInit = None, YLift = None, globalAnchor = None, TLocalInit = None,
               neighborPoseDict = Map.empty, neighborAuxPoseDict = Map.empty,
               mTeamStatus = Map.empty,
               mOptimizationRequested = False, mPublishPublicPosesRequested = False,
               mPublishWeightsRequested = False,
               mOptimizationThread = False, mEndLoopRequested = False\<rparr>
      in if mID a = 0 then
           (let drawn = fixedStiefelVariable rs (agent_d a) (agent_r a) s in
            ebind (setLiftingMatrix env (fst drawn) a) (\<lambda>a1. Inr (a1, snd drawn)))
         else Inr (a, s))"

subsection \<open>Nesterov acceleration\<close>

definition initializeAcceleration ::
  "('m, 'g, 'c) PGOAgent \<Rightarrow> error + ('m, 'g, 'c) PGOAgent" where
  "initializeAcceleration a =
     ebind (CHECK (acceleration (mParams a))) (\<lambda>_.
     if mState a = INITIALIZED then
       Inr (a\<lparr>XPrev := agent_X a, gamma := Finite 0, alpha := Finite 0,
              agent_V := agent_X a, agent_Y := agent_X a\<rparr>)
     else Inr a)"

text \<open>\<^verbatim>\<open>pow(x, 2)\<close>.\<close>

definition dpow2 :: "double \<Rightarrow> double" where
  "dpow2 x = dmul x x"

text \<open>
  In \<^verbatim>\<open>2 * mParams.numRobots\<close> both factors are unsigned, so the product wraps before
  it becomes a double.
\<close>

definition updateGamma :: "('m, 'g, 'c) PGOAgent \<Rightarrow> error + ('m, 'g, 'c) PGOAgent" where
  "updateGamma a =
     ebind (CHECK (acceleration (mParams a))) (\<lambda>_.
     ebind (CHECK (mState a = INITIALIZED)) (\<lambda>_.
     Inr (a\<lparr>gamma :=
       ddiv (dadd (Finite 1)
               (dsqrt (dadd (Finite 1)
                  (dmul (dmul (Finite 4) (dpow2 (of_unsigned (numRobots (mParams a)))))
                        (dpow2 (gamma a))))))
            (of_unsigned (2 * numRobots (mParams a)))\<rparr>)))"

definition updateAlpha :: "('m, 'g, 'c) PGOAgent \<Rightarrow> error + ('m, 'g, 'c) PGOAgent" where
  "updateAlpha a =
     ebind (CHECK (acceleration (mParams a))) (\<lambda>_.
     ebind (CHECK (mState a = INITIALIZED)) (\<lambda>_.
     Inr (a\<lparr>alpha := ddiv (Finite 1) (dmul (gamma a) (of_unsigned (numRobots (mParams a))))\<rparr>)))"

definition updateY ::
  "('m, 'g, 'c) Env \<Rightarrow> ('m, 'g, 'c) PGOAgent \<Rightarrow> error + ('m, 'g, 'c) PGOAgent" where
  "updateY env a =
     ebind (CHECK (acceleration (mParams a))) (\<lambda>_.
     ebind (CHECK (mState a = INITIALIZED)) (\<lambda>_.
     let M = mat_plus env (mat_scale env (dsub (Finite 1) (alpha a)) (getData (agent_X a)))
                          (mat_scale env (alpha a) (getData (agent_V a)))
     in Inr (a\<lparr>agent_Y :=
                 setData (project env (relaxation_rank a) (dimension a) (num_poses env a) M)
                   (agent_Y a)\<rparr>)))"

definition updateV ::
  "('m, 'g, 'c) Env \<Rightarrow> ('m, 'g, 'c) PGOAgent \<Rightarrow> error + ('m, 'g, 'c) PGOAgent" where
  "updateV env a =
     ebind (CHECK (acceleration (mParams a))) (\<lambda>_.
     ebind (CHECK (mState a = INITIALIZED)) (\<lambda>_.
     let M = mat_plus env (getData (agent_V a))
               (mat_scale env (gamma a)
                  (mat_minus env (getData (agent_X a)) (getData (agent_Y a))))
     in Inr (a\<lparr>agent_V :=
                 setData (project env (relaxation_rank a) (dimension a) (num_poses env a) M)
                   (agent_V a)\<rparr>)))"

subsection \<open>updateX\<close>

definition updateX_settings :: "('m, 'g, 'c) PGOAgent \<Rightarrow> OptimizerSettings" where
  "updateX_settings a =
     \<lparr>opt_verbose = verbose (mParams a), opt_algorithm = algorithm (mParams a),
      trustRegionTolerance = 1 / 100, trustRegionIterations = 1,
      trustRegionMaxInnerIterations = 10, trustRegionInitialRadius = 100\<rparr>"

text \<open>
  The result is the returned flag and the agent after the call. The pose graph is
  held through a shared pointer: \<^verbatim>\<open>setNeighborPoses\<close> and \<^verbatim>\<open>constructDataMatrices\<close>
  change the agent's graph, also when the construction fails.
\<close>

definition updateX ::
  "('m, 'g, 'c) Env \<Rightarrow> bool \<Rightarrow> bool \<Rightarrow> ('m, 'g, 'c) PGOAgent \<Rightarrow>
     error + (bool \<times> ('m, 'g, 'c) PGOAgent)" where
  "updateX env doOptimization accel a =
     (if \<not> doOptimization then
        Inr (True, if accel then a\<lparr>agent_X := agent_Y a\<rparr> else a)
      else
        ebind (if accel then CHECK (acceleration (mParams a)) else Inr ()) (\<lambda>_.
        ebind (CHECK (mState a = INITIALIZED)) (\<lambda>_.
        let g1 = setNeighborPoses env
                   (if accel then neighborAuxPoseDict a else neighborPoseDict a) (mPoseGraph a);
            built = constructDataMatrices env g1;
            a1 = a\<lparr>mPoseGraph := snd built\<rparr>
        in if \<not> fst built then Inr (False, a1)
           else
             let X0 = (if accel then getData (agent_Y a1) else getData (agent_X a1)) in
             ebind (CHECK (rows env X0 = unat (relaxation_rank a1))) (\<lambda>_.
             ebind (CHECK (cols env X0 = unat ((dimension a1 + 1) * num_poses env a1))) (\<lambda>_.
             Inr (True,
                  a1\<lparr>agent_X :=
                       setData (optimize env (mPoseGraph a1) (updateX_settings a1) X0)
                         (agent_X a1)\<rparr>))))))"

definition shouldRestart :: "('m, 'g, 'c) PGOAgent \<Rightarrow> error + bool" where
  "shouldRestart a =
     (if acceleration (mParams a) then
        (if restartInterval (mParams a) = 0 then Inl UndefinedBehaviour
         else Inr ((mIterationNumber a + 1) mod restartInterval (mParams a) = 0))
      else Inr False)"

definition restartNesterovAcceleration ::
  "('m, 'g, 'c) Env \<Rightarrow> bool \<Rightarrow> ('m, 'g, 'c) PGOAgent \<Rightarrow> error + ('m, 'g, 'c) PGOAgent" where
  "restartNesterovAcceleration env doOptimization a =
     (if acceleration (mParams a) \<and> mState a = INITIALIZED then
        ebind (updateX env doOptimization False (a\<lparr>agent_X := XPrev a\<rparr>)) (\<lambda>res.
        let a1 = snd res in
        Inr (a1\<lparr>agent_V := agent_X a1, agent_Y := agent_X a1,
                gamma := Finite 0, alpha := Finite 0\<rparr>))
      else Inr a)"

subsection \<open>Reweighting of the loop closures\<close>

definition shouldUpdateLoopClosureWeights :: "('m, 'g, 'c) PGOAgent \<Rightarrow> error + bool" where
  "shouldUpdateLoopClosureWeights a =
     (if costType (robustCostParams (mParams a)) = L2 then Inr False
      else if robustOptInnerIters (mParams a) = 0 then Inl UndefinedBehaviour
      else Inr ((mIterationNumber a + 1) mod robustOptInnerIters (mParams a) = 0))"

definition reweight ::
  "('m, 'g, 'c) Env \<Rightarrow> ('m, 'g, 'c) PGOAgent \<Rightarrow> 'm RelativeSEMeasurement \<Rightarrow>
     'm \<Rightarrow> 'm \<Rightarrow> 'm \<Rightarrow> 'm \<Rightarrow> 'm RelativeSEMeasurement" where
  "reweight env a m Y1 t1 Y2 t2 =
     (let residual = dsqrt (computeMeasurementError env m Y1 t1 Y2 t2)
      in m\<lparr>weight := cost_weight env (mRobustCost a) residual\<rparr>)"

definition updatePrivateLoopClosure ::
  "('m, 'g, 'c) Env \<Rightarrow> ('m, 'g, 'c) PGOAgent \<Rightarrow> 'm RelativeSEMeasurement \<Rightarrow>
     'm RelativeSEMeasurement" where
  "updatePrivateLoopClosure env a m =
     (if isKnownInlier m then m
      else reweight env a m
             (rotation_at env (agent_X a) (p1 m)) (translation_at env (agent_X a) (p1 m))
             (rotation_at env (agent_X a) (p2 m)) (translation_at env (agent_X a) (p2 m)))"

text \<open>
  An agent reweights a shared edge only when the other robot has the larger
  identifier, and skips the edge when it holds no pose of that robot for it. The
  constructor of \<^verbatim>\<open>PoseID\<close> truncates the two \<^verbatim>\<open>size_t\<close> to \<^verbatim>\<open>unsigned\<close>.
\<close>

definition updateSharedLoopClosure ::
  "('m, 'g, 'c) Env \<Rightarrow> ('m, 'g, 'c) PGOAgent \<Rightarrow> 'm RelativeSEMeasurement \<Rightarrow>
     'm RelativeSEMeasurement" where
  "updateSharedLoopClosure env a m =
     (if isKnownInlier m then m
      else if r1 m = ucast (getID a) then
        (if r2 m < ucast (getID a) then m
         else
           (case neighborPoseDict a \<lparr>robot_id = ucast (r2 m), frame_id = ucast (p2 m)\<rparr> of
              None \<Rightarrow> m
            | Some X2 \<Rightarrow>
                reweight env a m
                  (rotation_at env (agent_X a) (p1 m)) (translation_at env (agent_X a) (p1 m))
                  (rotation_at env X2 0) (translation_at env X2 0)))
      else
        (if r1 m < ucast (getID a) then m
         else
           (case neighborPoseDict a \<lparr>robot_id = ucast (r1 m), frame_id = ucast (p1 m)\<rparr> of
              None \<Rightarrow> m
            | Some X1 \<Rightarrow>
                reweight env a m
                  (rotation_at env X1 0) (translation_at env X1 0)
                  (rotation_at env (agent_X a) (p2 m)) (translation_at env (agent_X a) (p2 m)))))"

definition updateLoopClosuresWeights ::
  "('m, 'g, 'c) Env \<Rightarrow> ('m, 'g, 'c) PGOAgent \<Rightarrow> error + ('m, 'g, 'c) PGOAgent" where
  "updateLoopClosuresWeights env a =
     ebind (CHECK (mState a = INITIALIZED)) (\<lambda>_.
     let g1 = clearDataMatrices env (mPoseGraph a);
         g2 = set_privateLoopClosures env
                (map (updatePrivateLoopClosure env a) (privateLoopClosures env g1)) g1;
         g3 = set_sharedLoopClosures env
                (map (updateSharedLoopClosure env a) (sharedLoopClosures env g2)) g2
     in Inr (a\<lparr>mPoseGraph := g3, mPublishWeightsRequested := True\<rparr>))"

subsection \<open>iterate\<close>

text \<open>The first block of \<^verbatim>\<open>iterate\<close>: the update of the weights, when it is due.\<close>

definition iterate_reweight ::
  "('m, 'g, 'c) Env \<Rightarrow> ('m, 'g, 'c) PGOAgent \<Rightarrow> error + ('m, 'g, 'c) PGOAgent" where
  "iterate_reweight env a =
     ebind (shouldUpdateLoopClosureWeights a) (\<lambda>due.
     if due then
       ebind (updateLoopClosuresWeights env a) (\<lambda>a1.
       let a2 = a1\<lparr>mRobustCost := cost_update env (mRobustCost a1)\<rparr> in
       ebind (if \<not> robustOptWarmStart (mParams a2) then
                ebind (CHECK (XInit a2 \<noteq> None)) (\<lambda>_. Inr (a2\<lparr>agent_X := the (XInit a2)\<rparr>))
              else Inr a2) (\<lambda>a3.
       if acceleration (mParams a3) then initializeAcceleration a3 else Inr a3))
     else Inr a)"

text \<open>
  The second block, entered in state \<open>INITIALIZED\<close> after \<^verbatim>\<open>XPrev = X\<close>: it yields the
  flag \<^verbatim>\<open>success\<close> and the agent.
\<close>

definition iterate_update ::
  "('m, 'g, 'c) Env \<Rightarrow> bool \<Rightarrow> ('m, 'g, 'c) PGOAgent \<Rightarrow>
     error + (bool \<times> ('m, 'g, 'c) PGOAgent)" where
  "iterate_update env doOptimization a =
     (if acceleration (mParams a) then
        ebind (updateGamma a) (\<lambda>a1.
        ebind (updateAlpha a1) (\<lambda>a2.
        ebind (updateY env a2) (\<lambda>a3.
        ebind (updateX env doOptimization True a3) (\<lambda>res.
        ebind (updateV env (snd res)) (\<lambda>a5.
        ebind (shouldRestart a5) (\<lambda>restart.
        ebind (if restart then restartNesterovAcceleration env doOptimization a5 else Inr a5)
          (\<lambda>a6.
        Inr (fst res, a6\<lparr>mPublishPublicPosesRequested := True\<rparr>))))))))
      else
        ebind (updateX env doOptimization False a) (\<lambda>res.
        Inr (fst res,
             if doOptimization then (snd res)\<lparr>mPublishPublicPosesRequested := True\<rparr>
             else snd res)))"

text \<open>The third block: the status after a local optimization step.\<close>

definition convergence_ratio :: "Statistics \<Rightarrow> double" where
  "convergence_ratio stat =
     ddiv (dadd (accept_loop_closures stat) (reject_loop_closures stat))
          (total_loop_closures stat)"

definition iterate_status ::
  "('m, 'g, 'c) Env \<Rightarrow> bool \<Rightarrow> ('m, 'g, 'c) PGOAgent \<Rightarrow> ('m, 'g, 'c) PGOAgent" where
  "iterate_status env success a =
     (let change = averageTranslationDistance env (agent_X a) (XPrev a);
          ready0 = True;
          ready1 = (if \<not> success then False else ready0);
          ready2 = (if dgt change (relChangeTol (mParams a)) then False else ready1);
          ratio = convergence_ratio (statistics env (mPoseGraph a));
          ready3 = (if dlt ratio (robustOptMinConvergenceRatio (mParams a)) then False
                    else ready2)
      in a\<lparr>mStatus := \<lparr>agentID = getID a, state = mState a,
                        instanceNumber = instance_number a,
                        iterationNumber = iteration_number a,
                        readyToTerminate = ready3,
                        relativeChange = change\<rparr>\<rparr>)"

definition iterate ::
  "('m, 'g, 'c) Env \<Rightarrow> bool \<Rightarrow> ('m, 'g, 'c) PGOAgent \<Rightarrow> error + ('m, 'g, 'c) PGOAgent" where
  "iterate env doOptimization a0 =
     ebind (iterate_reweight env (a0\<lparr>mIterationNumber := mIterationNumber a0 + 1\<rparr>)) (\<lambda>a1.
     if mState a1 = INITIALIZED then
       ebind (iterate_update env doOptimization (a1\<lparr>XPrev := agent_X a1\<rparr>)) (\<lambda>res.
       Inr (if doOptimization then iterate_status env (fst res) (snd res) else snd res))
     else Inr a1)"

subsection \<open>Initialization in the global frame\<close>










subsection \<open>The neighbour pose cache\<close>











text \<open>
  The agent at the first call of \<^verbatim>\<open>updateX\<close> in \<^verbatim>\<open>iterate\<close>, in state
  \<open>INITIALIZED\<close>: the counter incremented, the weights updated when due, the iterate
  saved, and in accelerated mode \<open>\<gamma>\<close>, \<open>\<alpha>\<close> and \<open>Y\<close> updated.
\<close>

definition accelerate ::
  "('m, 'g, 'c) Env \<Rightarrow> ('m, 'g, 'c) PGOAgent \<Rightarrow> error + ('m, 'g, 'c) PGOAgent" where
  "accelerate env a =
     (if acceleration (mParams a) then
        ebind (updateGamma a) (\<lambda>a1. ebind (updateAlpha a1) (\<lambda>a2. updateY env a2))
      else Inr a)"

definition before_updateX ::
  "('m, 'g, 'c) Env \<Rightarrow> ('m, 'g, 'c) PGOAgent \<Rightarrow> error + ('m, 'g, 'c) PGOAgent" where
  "before_updateX env a =
     ebind (iterate_reweight env (a\<lparr>mIterationNumber := mIterationNumber a + 1\<rparr>)) (\<lambda>a1.
     accelerate env (a1\<lparr>XPrev := agent_X a1\<rparr>))"

text \<open>What no step of an iteration changes: the parameters, the state and the counter.\<close>

definition same_run :: "('m, 'g, 'c) PGOAgent \<Rightarrow> ('m, 'g, 'c) PGOAgent \<Rightarrow> bool" where
  "same_run a a' \<longleftrightarrow> mParams a' = mParams a \<and> mState a' = mState a \<and>
     mIterationNumber a' = mIterationNumber a"

section \<open>Matrices of doubles\<close>

text \<open>
  \<^verbatim>\<open>Matrix\<close> is the dynamic matrix of doubles of the linear algebra library, here the
  list of its rows. What the sources do with matrices is of two kinds. Reading and
  writing coefficients and blocks, and transposing, move doubles without computing
  with them; they are defined below. A coefficient outside the dimensions, undefined
  behaviour in the source, is an unspecified double here; the theorems assume the
  dimensions under which every access is inside.
\<close>

type_synonym Matrix = "double list list"

definition mat :: "nat \<Rightarrow> nat \<Rightarrow> (nat \<Rightarrow> nat \<Rightarrow> double) \<Rightarrow> Matrix" where
  "mat r c f = map (\<lambda>i. map (\<lambda>j. f i j) [0..<c]) [0..<r]"

definition nrows :: "Matrix \<Rightarrow> nat" where
  "nrows M = length M"

definition ncols :: "Matrix \<Rightarrow> nat" where
  "ncols M = (case M of [] \<Rightarrow> 0 | row # _ \<Rightarrow> length row)"

definition coeff :: "Matrix \<Rightarrow> nat \<Rightarrow> nat \<Rightarrow> double" where
  "coeff M i j = M ! i ! j"

definition wf_mat :: "nat \<Rightarrow> nat \<Rightarrow> Matrix \<Rightarrow> bool" where
  "wf_mat r c M \<longleftrightarrow> length M = r \<and> list_all (\<lambda>row. length row = c) M"




definition Zero :: "nat \<Rightarrow> nat \<Rightarrow> Matrix" where
  "Zero r c = mat r c (\<lambda>_ _. Finite 0)"



subsection \<open>Arithmetic\<close>

text \<open>
  The other kind is arithmetic: the operators of the language on doubles, which round,
  and the functions of the linear algebra library, which are not among the sources and
  compute in doubles in an order of their own. None of it is fixed here. The operations
  are the fields of a record that the definitions below take as a parameter, and the
  theorems hold for every value of it, so for the arithmetic the program runs with;
  where a theorem needs a law of the arithmetic, the law is a hypothesis.

  The fields are the operators \<^verbatim>\<open>-\<close>, \<^verbatim>\<open>*\<close> and \<^verbatim>\<open>/\<close> on doubles, and of the library the
  product of two matrices, \<^verbatim>\<open>determinant()\<close>, \<^verbatim>\<open>inverse()\<close>, \<^verbatim>\<open>trace()\<close>, the
  singular value decomposition with its factors \<^verbatim>\<open>matrixU()\<close> and \<^verbatim>\<open>matrixV()\<close>, and
  \<^verbatim>\<open>toRotationMatrix()\<close> of a planar rotation and of a quaternion \<open>(w, x, y, z)\<close>.
\<close>

record JacobiSVD =
  matrixU :: Matrix
  matrixV :: Matrix

record Numerics =
  double_minus :: "double \<Rightarrow> double \<Rightarrow> double"
  double_times :: "double \<Rightarrow> double \<Rightarrow> double"
  double_divide :: "double \<Rightarrow> double \<Rightarrow> double"
  eigen_product :: "Matrix \<Rightarrow> Matrix \<Rightarrow> Matrix"
  eigen_determinant :: "Matrix \<Rightarrow> double"
  eigen_inverse :: "Matrix \<Rightarrow> Matrix"
  eigen_trace :: "Matrix \<Rightarrow> double"
  eigen_JacobiSVD :: "Matrix \<Rightarrow> JacobiSVD"
  eigen_Rotation2Dd :: "double \<Rightarrow> Matrix"
  eigen_Quaterniond :: "double \<Rightarrow> double \<Rightarrow> double \<Rightarrow> double \<Rightarrow> Matrix"




section \<open>Rounded trajectories\<close>





text \<open>
  A pose array of dimension \<open>d\<close> for \<open>n\<close> poses, as its constructor leaves it, and the
  arrays of that shape.
\<close>

definition PoseArray :: "unsigned \<Rightarrow> unsigned \<Rightarrow> Matrix PoseArray" where
  "PoseArray d n =
     \<lparr>arr_r = d, arr_d = d, arr_n = n, getData = Zero (unat d) (unat n * (unat d + 1))\<rparr>"








section \<open>The g2o reader\<close>

text \<open>
  \<^verbatim>\<open>read_g2o_file\<close> reads the file line by line. A line is modelled after its
  tokens have been read: the first token decides the kind of the line, and the fields
  of an edge are the numbers that follow, all of which are assumed to parse. An edge of
  the plane carries the two pose identifiers, \<open>(dx, dy, dtheta)\<close> and the upper triangle
  \<open>(I11, I12, I13, I22, I23, I33)\<close> of its information matrix. An edge of space carries
  the two identifiers, \<open>(dx, dy, dz)\<close>, \<open>(dqx, dqy, dqz, dqw)\<close> and the upper triangle of
  its \<open>6 \<times> 6\<close> information matrix, here as the triangle of the translation block, the
  nine entries \<open>I14\<close> to \<open>I36\<close> of the block off the diagonal, which nothing reads, and
  the triangle \<open>(I44, I45, I46, I55, I56, I66)\<close> of the rotation block. The fields of a
  vertex and of a \<^verbatim>\<open>FIX\<close> line are not read. \<open>Unrecognized\<close> is a line with any other first
  token, and \<open>Blank\<close> is a line without a token.
\<close>

type_synonym upper3 = "double \<times> double \<times> double \<times> double \<times> double \<times> double"

datatype g2o_line =
    EDGE_SE2 size_t size_t "double \<times> double \<times> double" upper3
  | EDGE_SE3_QUAT size_t size_t "double \<times> double \<times> double"
      "double \<times> double \<times> double \<times> double" upper3 "double list" upper3
  | VERTEX_SE2
  | VERTEX_SE3_QUAT
  | FIX
  | Unrecognized
  | Blank

text \<open>
  The assignments of the two edge branches to the one measurement that the loop fills
  again for every line. They leave \<^verbatim>\<open>weight\<close> and \<^verbatim>\<open>isKnownInlier\<close> as they are. The
  precisions are computed in the arithmetic of doubles, with the inverse and the trace
  of the linear algebra library; \<^verbatim>\<open>kappa\<close> of an edge of the plane is the entry \<open>I33\<close>
  itself.
\<close>

fun is_edge :: "g2o_line \<Rightarrow> bool" where
  "is_edge (EDGE_SE2 _ _ _ _) = True"
| "is_edge (EDGE_SE3_QUAT _ _ _ _ _ _ _) = True"
| "is_edge _ = False"

fun parse_edge ::
  "Numerics \<Rightarrow> Matrix RelativeSEMeasurement \<Rightarrow> g2o_line \<Rightarrow> Matrix RelativeSEMeasurement" where
  "parse_edge num measurement (EDGE_SE2 i j (dx, dy, dtheta) (I11, I12, I13, I22, I23, I33)) =
     (let TranCov = [[I11, I12], [I12, I22]]
      in measurement
           \<lparr>r1 := 0, r2 := 0, p1 := i, p2 := j,
            meas_R := eigen_Rotation2Dd num dtheta, meas_t := [[dx], [dy]],
            kappa := I33,
            tau := double_divide num (Finite 2) (eigen_trace num (eigen_inverse num TranCov)),
            fixedWeight := (i + 1 = j)\<rparr>)"
| "parse_edge num measurement
     (EDGE_SE3_QUAT i j (dx, dy, dz) (dqx, dqy, dqz, dqw) (I11, I12, I13, I22, I23, I33) cross
        (I44, I45, I46, I55, I56, I66)) =
     (let TranCov = [[I11, I12, I13], [I12, I22, I23], [I13, I23, I33]];
          RotCov = [[I44, I45, I46], [I45, I55, I56], [I46, I56, I66]]
      in measurement
           \<lparr>r1 := 0, r2 := 0, p1 := i, p2 := j,
            meas_R := eigen_Quaterniond num dqw dqx dqy dqz, meas_t := [[dx], [dy], [dz]],
            kappa := double_divide num (Finite 3)
                       (double_times num (Finite 2) (eigen_trace num (eigen_inverse num RotCov))),
            tau := double_divide num (Finite 3) (eigen_trace num (eigen_inverse num TranCov)),
            fixedWeight := (i + 1 = j)\<rparr>)"
| "parse_edge num measurement _ = measurement"

text \<open>
  \<^verbatim>\<open>pose_ids\<close> is a \<^verbatim>\<open>std::set\<close>: a list in ascending order without duplicates.
\<close>

definition emplace :: "size_t \<Rightarrow> size_t list \<Rightarrow> size_t list" where
  "emplace x pose_ids = (if x \<in> set pose_ids then pose_ids else insort x pose_ids)"

text \<open>
  The loop over the lines. The variable \<^verbatim>\<open>token\<close> is declared outside the loop and
  the extraction of a token from a line without one fails and leaves it unchanged, as
  it leaves the numbers of the last edge: a blank line is read as the last line with a
  token once more. Before the first token the variable holds the empty string, which
  is no known kind of line. \<^verbatim>\<open>LOG(FATAL)\<close> aborts.
\<close>

fun read_lines ::
  "Numerics \<Rightarrow> g2o_line option \<Rightarrow> Matrix RelativeSEMeasurement \<Rightarrow> size_t list \<Rightarrow>
     Matrix RelativeSEMeasurement list \<Rightarrow> g2o_line list \<Rightarrow>
     error + (Matrix RelativeSEMeasurement list \<times> size_t list)" where
  "read_lines num token measurement pose_ids measurements [] = Inr (measurements, pose_ids)"
| "read_lines num token measurement pose_ids measurements (line # lines) =
     (let token = (if line = Blank then token else Some line)
      in case token of
           None \<Rightarrow> Inl Fatal
         | Some l \<Rightarrow>
             if is_edge l then
               let measurement = parse_edge num measurement l;
                   pose_ids = emplace (p2 measurement) (emplace (p1 measurement) pose_ids)
               in read_lines num token measurement pose_ids (measurements @ [measurement]) lines
             else if l = VERTEX_SE2 \<or> l = VERTEX_SE3_QUAT \<or> l = FIX then
               read_lines num token measurement pose_ids measurements lines
             else Inl Fatal)"

text \<open>
  The check of the sequence of pose identifiers, in the order of the set, and the
  subtraction of the first identifier. The identifiers are \<^verbatim>\<open>size_t\<close>, so
  \<^verbatim>\<open>first_pose_id - 1\<close> and \<^verbatim>\<open>prev_pose_id + 1\<close> wrap around. Reading the first element of an
  empty set is undefined behaviour.
\<close>

fun check_consecutive :: "size_t \<Rightarrow> size_t list \<Rightarrow> error + unit" where
  "check_consecutive prev_pose_id [] = Inr ()"
| "check_consecutive prev_pose_id (pose_id # pose_ids) =
     (if pose_id \<noteq> prev_pose_id + 1 then Inl Fatal
      else check_consecutive pose_id pose_ids)"

definition reindex ::
  "size_t \<Rightarrow> Matrix RelativeSEMeasurement \<Rightarrow> Matrix RelativeSEMeasurement" where
  "reindex first_pose_id measurement =
     measurement\<lparr>p1 := p1 measurement - first_pose_id, p2 := p2 measurement - first_pose_id\<rparr>"

definition read_g2o_file ::
  "Numerics \<Rightarrow> Matrix RelativeSEMeasurement \<Rightarrow> g2o_line list \<Rightarrow>
     error + (Matrix RelativeSEMeasurement list \<times> size_t)" where
  "read_g2o_file num measurement lines =
     ebind (read_lines num None (measurement\<lparr>weight := Finite 1\<rparr>) [] [] lines)
       (\<lambda>(measurements, pose_ids).
          case pose_ids of
            [] \<Rightarrow> Inl UndefinedBehaviour
          | first_pose_id # _ \<Rightarrow>
              ebind (check_consecutive (first_pose_id - 1) pose_ids) (\<lambda>_.
                let measurements = (if first_pose_id \<noteq> 0
                                    then map (reindex first_pose_id) measurements
                                    else measurements)
                in Inr (measurements, of_nat (length pose_ids))))"

subsection \<open>The input of the reader\<close>

text \<open>
  The notions in which the properties of the reader are stated. An input is recognized
  when no line aborts the loop, its edges are the lines that add a measurement, in
  order, and its pose identifiers are the endpoints of its edges.
\<close>

fun recognized :: "g2o_line option \<Rightarrow> g2o_line list \<Rightarrow> bool" where
  "recognized token [] = True"
| "recognized token (line # lines) =
     (case (if line = Blank then token else Some line) of
        None \<Rightarrow> False
      | Some l \<Rightarrow> l \<noteq> Unrecognized \<and> l \<noteq> Blank \<and> recognized (Some l) lines)"

fun edges :: "g2o_line option \<Rightarrow> g2o_line list \<Rightarrow> g2o_line list" where
  "edges token [] = []"
| "edges token (line # lines) =
     (case (if line = Blank then token else Some line) of
        None \<Rightarrow> []
      | Some l \<Rightarrow> (if is_edge l then [l] else []) @ edges (Some l) lines)"

fun edge_p1 :: "g2o_line \<Rightarrow> size_t" where
  "edge_p1 (EDGE_SE2 i j _ _) = i"
| "edge_p1 (EDGE_SE3_QUAT i j _ _ _ _ _) = i"
| "edge_p1 _ = 0"

fun edge_p2 :: "g2o_line \<Rightarrow> size_t" where
  "edge_p2 (EDGE_SE2 i j _ _) = j"
| "edge_p2 (EDGE_SE3_QUAT i j _ _ _ _ _) = j"
| "edge_p2 _ = 0"

definition pose_id_set :: "g2o_line list \<Rightarrow> size_t set" where
  "pose_id_set lines = (\<Union>l\<in>set (edges None lines). {edge_p1 l, edge_p2 l})"

definition emplace_ids :: "size_t list \<Rightarrow> g2o_line \<Rightarrow> size_t list" where
  "emplace_ids pose_ids l = emplace (edge_p2 l) (emplace (edge_p1 l) pose_ids)"

section \<open>A concrete environment\<close>

text \<open>
  An environment to run the agent in: matrices are lists of rows, the pose graph of a
  robot is the number of its poses (a chain of odometry edges, no loop closure and no
  neighbour), the optimizer returns its starting point and the projection its
  argument.
\<close>

definition line_cols :: "real list list \<Rightarrow> nat" where
  "line_cols M = (case M of [] \<Rightarrow> 0 | row # _ \<Rightarrow> length row)"

definition line_array :: "unsigned \<Rightarrow> unsigned \<Rightarrow> unsigned \<Rightarrow> real list list LiftedPoseArray" where
  "line_array r d n =
     \<lparr>arr_r = r, arr_d = d, arr_n = n,
      getData = replicate (unat r) (replicate (unat ((d + 1) * n)) 0)\<rparr>"

definition line_env :: "(real list list, nat, unit) Env" where
  "line_env =
     \<lparr>newLiftedPoseArray = line_array,
      newPoseGraph = (\<lambda>_ _ _. 0),
      newRobustCost = (\<lambda>_. ()),
      cost_reset = (\<lambda>c. c),
      cost_update = (\<lambda>c. c),
      cost_weight = (\<lambda>_ _. Finite 1),
      graph_n = of_nat,
      neighborPublicPoseIDs = (\<lambda>_. {}),
      sharedLoopClosuresWithRobot = (\<lambda>_ _. []),
      privateLoopClosures = (\<lambda>_. []),
      set_privateLoopClosures = (\<lambda>_ g. g),
      sharedLoopClosures = (\<lambda>_. []),
      set_sharedLoopClosures = (\<lambda>_ g. g),
      clearDataMatrices = (\<lambda>g. g),
      setNeighborPoses = (\<lambda>_ g. g),
      constructDataMatrices = (\<lambda>g. (True, g)),
      statistics = (\<lambda>_. \<lparr>total_loop_closures = Finite 0,
                            accept_loop_closures = Finite 0,
                            reject_loop_closures = Finite 0\<rparr>),
      pose_at = (\<lambda>A _. getData A),
      set_pose_at = (\<lambda>_ M A. A),
      rotation_at = (\<lambda>A _. getData A),
      translation_at = (\<lambda>A _. getData A),
      set_rotation = (\<lambda>_ T. T),
      set_translation = (\<lambda>_ T. T),
      pose_Identity = (\<lambda>d. line_array d d 1),
      pose_of_matrix = (\<lambda>M. \<lparr>arr_r = 2, arr_d = 2, arr_n = 1, getData = M\<rparr>),
      pose_inverse = (\<lambda>T. T),
      pose_times = (\<lambda>T _. T),
      averageTranslationDistance = (\<lambda>A B. if getData A = getData B then Finite 0 else Finite 1),
      rows = length,
      cols = line_cols,
      mat_times = (\<lambda>A _. A),
      mat_transpose = (\<lambda>A. A),
      mat_scale = (\<lambda>_ A. A),
      mat_plus = (\<lambda>A _. A),
      mat_minus = (\<lambda>A _. A),
      project = (\<lambda>_ _ _ M. M),
      optimize = (\<lambda>_ _ M. M),
      robustSingleRotationAveraging = (\<lambda>_ _ _. ([], [])),
      singleTranslationAveraging = (\<lambda>_. []),
      computeMeasurementError = (\<lambda>_ _ _ _ _. Finite 0)\<rparr>"

definition line_params :: PGOAgentParameters where
  "line_params =
     \<lparr>params_d = 2, params_r = 2, numRobots = 1, algorithm = RTR, acceleration = False,
      restartInterval = 30, robustCostParams = \<lparr>costType = L2\<rparr>,
      robustOptWarmStart = True, robustOptInnerIters = 10,
      robustOptMinConvergenceRatio = Finite (8 / 10), robustInitMinInliers = 2,
      multirobot_initialization = True, maxNumIters = 500,
      relChangeTol = Finite (1 / 100), verbose = False, logData = False,
      logDirectory = []\<rparr>"

text \<open>
  Robot 0 with a chain of two poses, \<open>[I | (0, 0)]\<close> and \<open>[I | (1, 0)]\<close>, initialized,
  at the start of its sixth iteration of instance 3.
\<close>

definition line_X :: "real list list LiftedPoseArray" where
  "line_X = \<lparr>arr_r = 2, arr_d = 2, arr_n = 2,
             getData = [[1, 0, 0, 1, 0, 1],
                        [0, 1, 0, 0, 1, 0]]\<rparr>"

definition line_agent :: "(real list list, nat, unit) PGOAgent" where
  "line_agent =
     \<lparr>mID = 0, agent_d = 2, agent_r = 2, agent_X = line_X,
      mParams = line_params, mState = INITIALIZED,
      mStatus = \<lparr>agentID = 0, state = INITIALIZED, instanceNumber = 3,
                 iterationNumber = 5, readyToTerminate = False,
                 relativeChange = Finite 1\<rparr>,
      mRobustCost = (), mPoseGraph = 2, mRate = Finite 10,
      mInstanceNumber = 3, mIterationNumber = 5, mNumPosesReceived = 0,
      gamma = Finite 0, alpha = Finite 0,
      agent_Y = line_X, agent_V = line_X, XPrev = line_X,
      XInit = Some line_X,
      YLift = Some [[1, 0], [0, 1]],
      globalAnchor = None, TLocalInit = Some line_X,
      neighborPoseDict = Map.empty, neighborAuxPoseDict = Map.empty,
      mTeamStatus = Map.empty,
      mOptimizationRequested = False, mPublishPublicPosesRequested = False,
      mPublishWeightsRequested = False,
      mOptimizationThread = False, mEndLoopRequested = False\<rparr>"

text \<open>The same environment with a pose graph whose data matrices cannot be built.\<close>

definition degenerate_env :: "(real list list, nat, unit) Env" where
  "degenerate_env = line_env\<lparr>constructDataMatrices := (\<lambda>g. (False, g))\<rparr>"

text \<open>The same agent in accelerated mode, restarting every seventh iteration.\<close>

definition accelerated_agent :: "(real list list, nat, unit) PGOAgent" where
  "accelerated_agent =
     line_agent\<lparr>mParams := line_params\<lparr>acceleration := True, restartInterval := 7\<rparr>\<rparr>"







text \<open>
  A generator whose state is a counter: seeding sets the counter, and the point drawn
  is the identity or its negative by the parity of the counter.
\<close>

definition toy_random :: "(real list list, nat) RandomSource" where
  "toy_random =
     \<lparr>srand = unat,
      RandInManifold = (\<lambda>r d s.
        (map (\<lambda>i. map (\<lambda>j. if i = j then (if even s then 1 else - 1) else 0) [0..<unat d])
           [0..<unat r],
         s + unat r * unat d))\<rparr>"

text \<open>
  An arithmetic without rounding, for inputs on which the arithmetic of doubles does
  not round either: sums, differences and products of small integers. The product of
  two matrices accumulates from the left, the determinant is that of a matrix with up
  to two rows, the inverse is that of a diagonal matrix, the decomposition is
  \<open>M = M I I\<^sup>T\<close>, a singular value decomposition of a matrix with orthonormal columns,
  and the only angle with a rotation matrix is zero.
\<close>

definition doubles :: "real list list \<Rightarrow> Matrix" where
  "doubles M = map (map Finite) M"

definition exact_product :: "Matrix \<Rightarrow> Matrix \<Rightarrow> Matrix" where
  "exact_product A B =
     mat (nrows A) (ncols B)
       (\<lambda>i j. foldl dadd (Finite 0) (map (\<lambda>k. dmul (coeff A i k) (coeff B k j)) [0..<ncols A]))"

definition exact_determinant :: "Matrix \<Rightarrow> double" where
  "exact_determinant M =
     (case M of
        [[a]] \<Rightarrow> a
      | [[a, b], [c, e]] \<Rightarrow> dsub (dmul a e) (dmul b c)
      | _ \<Rightarrow> NaN)"

definition diagonal_inverse :: "Matrix \<Rightarrow> Matrix" where
  "diagonal_inverse M =
     mat (nrows M) (ncols M) (\<lambda>i j. if i = j then ddiv (Finite 1) (coeff M i i) else Finite 0)"

definition exact_trace :: "Matrix \<Rightarrow> double" where
  "exact_trace M = foldl dadd (Finite 0) (map (\<lambda>i. coeff M i i) [0..<nrows M])"

definition orthonormal_svd :: "Matrix \<Rightarrow> JacobiSVD" where
  "orthonormal_svd M =
     \<lparr>matrixU = M,
      matrixV = mat (ncols M) (ncols M) (\<lambda>i j. if i = j then Finite 1 else Finite 0)\<rparr>"

definition exact_Rotation2Dd :: "double \<Rightarrow> Matrix" where
  "exact_Rotation2Dd angle =
     (if angle = Finite 0 then doubles [[1, 0], [0, 1]] else [[NaN, NaN], [NaN, NaN]])"

definition exact_Quaterniond :: "double \<Rightarrow> double \<Rightarrow> double \<Rightarrow> double \<Rightarrow> Matrix" where
  "exact_Quaterniond w x y z =
     (let tx = dmul (Finite 2) x; ty = dmul (Finite 2) y; tz = dmul (Finite 2) z;
          twx = dmul tx w; twy = dmul ty w; twz = dmul tz w;
          txx = dmul tx x; txy = dmul ty x; txz = dmul tz x;
          tyy = dmul ty y; tyz = dmul tz y; tzz = dmul tz z
      in [[dsub (Finite 1) (dadd tyy tzz), dsub txy twz, dadd txz twy],
          [dadd txy twz, dsub (Finite 1) (dadd txx tzz), dsub tyz twx],
          [dsub txz twy, dadd tyz twx, dsub (Finite 1) (dadd txx tyy)]])"

definition exact_numerics :: Numerics where
  "exact_numerics =
     \<lparr>double_minus = dsub,
      double_times = dmul,
      double_divide = ddiv,
      eigen_product = exact_product,
      eigen_determinant = exact_determinant,
      eigen_inverse = diagonal_inverse,
      eigen_trace = exact_trace,
      eigen_JacobiSVD = orthonormal_svd,
      eigen_Rotation2Dd = exact_Rotation2Dd,
      eigen_Quaterniond = exact_Quaterniond\<rparr>"






text \<open>
  A measurement as its default constructor may leave it, an edge of the plane with
  the displacement \<open>(1, 0)\<close>, the angle zero and the identity as information matrix,
  and the measurement read from it.
\<close>

definition default_measurement :: "Matrix RelativeSEMeasurement" where
  "default_measurement =
     \<lparr>r1 = 0, r2 = 0, p1 = 0, p2 = 0, meas_R = [], meas_t = [],
      kappa = Finite 0, tau = Finite 0, weight = Finite 0,
      fixedWeight = False, isKnownInlier = False\<rparr>"

definition planar_edge :: "size_t \<Rightarrow> size_t \<Rightarrow> g2o_line" where
  "planar_edge i j =
     EDGE_SE2 i j (Finite 1, Finite 0, Finite 0)
       (Finite 1, Finite 0, Finite 0, Finite 1, Finite 0, Finite 1)"

definition planar_measurement :: "size_t \<Rightarrow> size_t \<Rightarrow> Matrix RelativeSEMeasurement" where
  "planar_measurement i j =
     \<lparr>r1 = 0, r2 = 0, p1 = i, p2 = j,
      meas_R = doubles [[1, 0], [0, 1]], meas_t = doubles [[1], [0]],
      kappa = Finite 1, tau = Finite 1, weight = Finite 1,
      fixedWeight = (i + 1 = j), isKnownInlier = False\<rparr>"

section \<open>Properties of reset\<close>

lemma reset_returns:
  "reset_logging (endOptimizationLoop a) = Inr () \<Longrightarrow> \<exists>a'. reset env a = Inr a'"
  by (simp add: reset_def ebind_def Let_def)

text \<open>
  C2. After any call of \<open>reset\<close> that returns, the state is \<open>WAIT_FOR_DATA\<close>, the
  instance number is the old one incremented by one (the increment of an unsigned
  counter), the iteration number is 0, the two neighbour pose dictionaries and the team
  status map are empty, and the lifting matrix is the one held before the call.
\<close>

theorem reset_postcondition:
  assumes "reset env a = Inr a'"
  shows "mState a' = WAIT_FOR_DATA \<and>
         mInstanceNumber a' = mInstanceNumber a + 1 \<and>
         mIterationNumber a' = 0 \<and>
         neighborPoseDict a' = Map.empty \<and>
         neighborAuxPoseDict a' = Map.empty \<and>
         mTeamStatus a' = Map.empty \<and>
         YLift a' = YLift a"
proof -
  from assms obtain u where "reset_logging (endOptimizationLoop a) = Inr u"
    by (cases "reset_logging (endOptimizationLoop a)") (simp_all add: reset_def ebind_def Let_def)
  with assms have a': "a' = projr (reset env a)"
    by simp
  have run: "mInstanceNumber (endOptimizationLoop a) = mInstanceNumber a"
    "YLift (endOptimizationLoop a) = YLift a"
    by (simp_all add: endOptimizationLoop_def)
  from \<open>reset_logging (endOptimizationLoop a) = Inr u\<close> show ?thesis
    unfolding a' by (simp add: reset_def ebind_def Let_def run)
qed

theorem reset_postcondition_witness:
  "reset line_env line_agent = Inr (projr (reset line_env line_agent)) \<and>
   mState (projr (reset line_env line_agent)) = WAIT_FOR_DATA \<and>
   mInstanceNumber (projr (reset line_env line_agent)) = 4 \<and>
   mIterationNumber (projr (reset line_env line_agent)) = 0 \<and>
   neighborPoseDict (projr (reset line_env line_agent)) = Map.empty \<and>
   YLift (projr (reset line_env line_agent)) = Some [[1, 0], [0, 1]]"
proof -
  have r: "reset line_env line_agent = Inr (projr (reset line_env line_agent))"
    by (simp add: reset_def reset_logging_def endOptimizationLoop_def isOptimizationRunning_def
        line_agent_def line_params_def ebind_def Let_def)
  have "mInstanceNumber line_agent = 3" "YLift line_agent = Some [[1, 0], [0, 1]]"
    by (simp_all add: line_agent_def)
  with reset_postcondition [OF r] r show ?thesis
    by simp
qed

section \<open>Properties of an iteration\<close>

lemma ebind_Inr_iff: "ebind m f = Inr y \<longleftrightarrow> (\<exists>x. m = Inr x \<and> f x = Inr y)"
  by (cases m) (simp_all add: ebind_def)

lemma same_run_refl: "same_run a a"
  by (simp add: same_run_def)

lemma same_run_trans: "same_run a b \<Longrightarrow> same_run b c \<Longrightarrow> same_run a c"
  by (simp add: same_run_def)

lemma updateGamma_frame:
  "updateGamma a = Inr a' \<Longrightarrow> same_run a a' \<and> XPrev a' = XPrev a"
  by (auto simp: updateGamma_def ebind_Inr_iff same_run_def)

lemma updateAlpha_frame:
  "updateAlpha a = Inr a' \<Longrightarrow> same_run a a' \<and> XPrev a' = XPrev a"
  by (auto simp: updateAlpha_def ebind_Inr_iff same_run_def)

lemma updateY_frame:
  "updateY env a = Inr a' \<Longrightarrow> same_run a a' \<and> XPrev a' = XPrev a"
  by (auto simp: updateY_def ebind_Inr_iff same_run_def Let_def)

lemma updateV_frame:
  "updateV env a = Inr a' \<Longrightarrow> same_run a a' \<and> XPrev a' = XPrev a"
  by (auto simp: updateV_def ebind_Inr_iff same_run_def Let_def)

lemma updateX_frame:
  "updateX env doOpt accel a = Inr (s, a') \<Longrightarrow> same_run a a' \<and> XPrev a' = XPrev a"
  by (auto simp: updateX_def ebind_Inr_iff same_run_def Let_def split: if_splits)

lemma initializeAcceleration_frame:
  "initializeAcceleration a = Inr a' \<Longrightarrow> same_run a a'"
  by (auto simp: initializeAcceleration_def ebind_Inr_iff same_run_def split: if_splits)

lemma updateLoopClosuresWeights_frame:
  "updateLoopClosuresWeights env a = Inr a' \<Longrightarrow> same_run a a'"
  by (auto simp: updateLoopClosuresWeights_def ebind_Inr_iff same_run_def Let_def)

lemma warm_start_frame:
  "(if \<not> robustOptWarmStart (mParams a2) then
      ebind (CHECK (XInit a2 \<noteq> None)) (\<lambda>_. Inr (a2\<lparr>agent_X := the (XInit a2)\<rparr>))
    else Inr a2) = Inr a3 \<Longrightarrow> same_run a2 a3"
  by (cases "robustOptWarmStart (mParams a2)") (auto simp: ebind_Inr_iff same_run_def)

lemma reinit_frame:
  "(if acceleration (mParams a3) then initializeAcceleration a3 else Inr a3) = Inr a'
     \<Longrightarrow> same_run a3 a'"
  by (cases "acceleration (mParams a3)")
     (auto simp: same_run_refl dest: initializeAcceleration_frame)

lemma iterate_reweight_frame:
  assumes "iterate_reweight env a = Inr a'"
  shows "same_run a a'"
proof -
  from assms obtain due where "shouldUpdateLoopClosureWeights a = Inr due"
    and rest: "(if due then
       ebind (updateLoopClosuresWeights env a) (\<lambda>a1.
       let a2 = a1\<lparr>mRobustCost := cost_update env (mRobustCost a1)\<rparr> in
       ebind (if \<not> robustOptWarmStart (mParams a2) then
                ebind (CHECK (XInit a2 \<noteq> None)) (\<lambda>_. Inr (a2\<lparr>agent_X := the (XInit a2)\<rparr>))
              else Inr a2) (\<lambda>a3.
       if acceleration (mParams a3) then initializeAcceleration a3 else Inr a3))
     else Inr a) = Inr a'"
    unfolding iterate_reweight_def ebind_Inr_iff by blast
  show ?thesis
  proof (cases due)
    case False
    with rest show ?thesis by (simp add: same_run_refl)
  next
    case True
    with rest have "ebind (updateLoopClosuresWeights env a) (\<lambda>a1.
       let a2 = a1\<lparr>mRobustCost := cost_update env (mRobustCost a1)\<rparr> in
       ebind (if \<not> robustOptWarmStart (mParams a2) then
                ebind (CHECK (XInit a2 \<noteq> None)) (\<lambda>_. Inr (a2\<lparr>agent_X := the (XInit a2)\<rparr>))
              else Inr a2) (\<lambda>a3.
       if acceleration (mParams a3) then initializeAcceleration a3 else Inr a3)) = Inr a'"
      by (simp only: if_True)
    then obtain a1 a3 where a1: "updateLoopClosuresWeights env a = Inr a1"
      and a3: "(if \<not> robustOptWarmStart
                    (mParams (a1\<lparr>mRobustCost := cost_update env (mRobustCost a1)\<rparr>)) then
                ebind (CHECK (XInit (a1\<lparr>mRobustCost := cost_update env (mRobustCost a1)\<rparr>)
                         \<noteq> None))
                  (\<lambda>_. Inr (a1\<lparr>mRobustCost := cost_update env (mRobustCost a1)\<rparr>
                      \<lparr>agent_X := the (XInit
                         (a1\<lparr>mRobustCost := cost_update env (mRobustCost a1)\<rparr>))\<rparr>))
              else Inr (a1\<lparr>mRobustCost := cost_update env (mRobustCost a1)\<rparr>)) = Inr a3"
      and fin: "(if acceleration (mParams a3) then initializeAcceleration a3 else Inr a3) = Inr a'"
      unfolding ebind_Inr_iff Let_def by blast
    have "same_run a1 (a1\<lparr>mRobustCost := cost_update env (mRobustCost a1)\<rparr>)"
      by (simp add: same_run_def)
    with updateLoopClosuresWeights_frame [OF a1] warm_start_frame [OF a3] reinit_frame [OF fin]
    show ?thesis
      by (blast intro: same_run_trans)
  qed
qed

lemma restart_result:
  assumes "restartNesterovAcceleration env doOpt a = Inr a'"
    and "acceleration (mParams a)" and "mState a = INITIALIZED"
  shows "\<exists>s ar. updateX env doOpt False (a\<lparr>agent_X := XPrev a\<rparr>) = Inr (s, ar) \<and>
           a' = ar\<lparr>agent_V := agent_X ar, agent_Y := agent_X ar,
                gamma := Finite 0, alpha := Finite 0\<rparr>"
  using assms
  by (auto simp: restartNesterovAcceleration_def ebind_Inr_iff Let_def)





lemmas line_defs = line_env_def line_agent_def line_params_def line_X_def line_cols_def
  degenerate_env_def accelerated_agent_def

lemmas run_defs = iterate_def iterate_reweight_def shouldUpdateLoopClosureWeights_def
  iterate_update_def updateX_def updateX_settings_def iterate_status_def convergence_ratio_def
  updateGamma_def updateAlpha_def updateY_def updateV_def shouldRestart_def
  restartNesterovAcceleration_def dpow2_def of_unsigned_def dsub_def
  ebind_def CHECK_def Let_def setData_def relaxation_rank_def dimension_def num_poses_def
  getID_def instance_number_def iteration_number_def dgt_def dle_def dge_def signed_inf_def

subsection \<open>The termination flag\<close>




subsection \<open>Failure to build the data matrices\<close>

text \<open>
  C4. A call \<open>updateX(true, false)\<close> in which the data matrices of the pose graph
  cannot be built returns false and leaves the iterate \<open>X\<close> as it was. (The call
  reaches the construction only in state \<open>INITIALIZED\<close>: the check before it aborts
  in any other state.)
\<close>

theorem updateX_construction_failure:
  assumes "mState a = INITIALIZED"
    and "\<not> fst (constructDataMatrices env
                  (setNeighborPoses env (neighborPoseDict a) (mPoseGraph a)))"
  shows "\<exists>a'. updateX env True False a = Inr (False, a') \<and> agent_X a' = agent_X a"
  using assms by (simp add: updateX_def ebind_def CHECK_def Let_def)

theorem updateX_construction_failure_witness:
  "mState line_agent = INITIALIZED \<and>
   \<not> fst (constructDataMatrices degenerate_env
            (setNeighborPoses degenerate_env (neighborPoseDict line_agent)
               (mPoseGraph line_agent))) \<and>
   (\<exists>a'. updateX degenerate_env True False line_agent = Inr (False, a') \<and>
         agent_X a' = line_X)"
proof -
  have st: "mState line_agent = INITIALIZED"
    by (simp add: line_agent_def)
  have fail: "\<not> fst (constructDataMatrices degenerate_env
            (setNeighborPoses degenerate_env (neighborPoseDict line_agent)
               (mPoseGraph line_agent)))"
    by (simp add: degenerate_env_def)
  have "agent_X line_agent = line_X"
    by (simp add: line_agent_def)
  with updateX_construction_failure [OF st fail] st fail show ?thesis
    by simp
qed

subsection \<open>Restart of the acceleration\<close>

text \<open>
  C6. In accelerated mode, when \<open>shouldRestart\<close> holds in an iteration of an
  initialized agent (the counter, already incremented, plus one is a multiple of
  \<open>restartInterval\<close>), the iteration ends with \<open>\<gamma> = 0\<close>, \<open>\<alpha> = 0\<close> and \<open>V = Y = X\<close>, where
  \<open>X\<close> is what one non-accelerated \<open>updateX\<close> returns when started from \<open>XPrev\<close>, the
  iterate saved at the start of the iteration. The agent that runs this \<open>updateX\<close> is the
  agent of the iteration itself: the one left by the accelerated \<open>updateX\<close> and \<open>updateV\<close>,
  with \<open>X\<close> set back to \<open>XPrev\<close>.
\<close>

theorem iterate_restart:
  assumes acc: "acceleration (mParams a)"
    and st: "mState a = INITIALIZED"
    and run: "iterate env doOpt a = Inr a'"
    and interval: "restartInterval (mParams a) \<noteq> 0"
    and due: "(mIterationNumber a + 1 + 1) mod restartInterval (mParams a) = 0"
  shows "\<exists>a1 b3 s0 b4 ab s ar.
           iterate_reweight env (a\<lparr>mIterationNumber := mIterationNumber a + 1\<rparr>) = Inr a1 \<and>
           before_updateX env a = Inr b3 \<and>
           updateX env doOpt True b3 = Inr (s0, b4) \<and>
           updateV env b4 = Inr ab \<and>
           XPrev ab = agent_X a1 \<and>
           updateX env doOpt False (ab\<lparr>agent_X := XPrev ab\<rparr>) = Inr (s, ar) \<and>
           agent_X a' = agent_X ar \<and>
           agent_V a' = agent_X a' \<and> agent_Y a' = agent_X a' \<and>
           gamma a' = Finite 0 \<and> alpha a' = Finite 0"
proof -
  let ?a0 = "a\<lparr>mIterationNumber := mIterationNumber a + 1\<rparr>"
  from run obtain a1 where a1: "iterate_reweight env ?a0 = Inr a1"
    and rest: "(if mState a1 = INITIALIZED then
       ebind (iterate_update env doOpt (a1\<lparr>XPrev := agent_X a1\<rparr>)) (\<lambda>res.
       Inr (if doOpt then iterate_status env (fst res) (snd res) else snd res))
     else Inr a1) = Inr a'"
    by (auto simp: iterate_def ebind_Inr_iff)
  from iterate_reweight_frame [OF a1] have f1: "same_run ?a0 a1" .
  with st acc have st1: "mState a1 = INITIALIZED" and acc1: "acceleration (mParams a1)"
    by (simp_all add: same_run_def)
  let ?b = "a1\<lparr>XPrev := agent_X a1\<rparr>"
  from rest st1 obtain s a6 where upd: "iterate_update env doOpt ?b = Inr (s, a6)"
    and a': "a' = (if doOpt then iterate_status env s a6 else a6)"
    by (auto simp: ebind_Inr_iff)
  from upd acc1 obtain b1 b2 b3 res b5 restart b6 where
    b1: "updateGamma ?b = Inr b1" and b2: "updateAlpha b1 = Inr b2"
    and b3: "updateY env b2 = Inr b3" and b4: "updateX env doOpt True b3 = Inr res"
    and b5: "updateV env (snd res) = Inr b5" and sr: "shouldRestart b5 = Inr restart"
    and b6: "(if restart then restartNesterovAcceleration env doOpt b5 else Inr b5) = Inr b6"
    and a6: "a6 = b6\<lparr>mPublishPublicPosesRequested := True\<rparr>"
    by (auto simp: iterate_update_def ebind_Inr_iff)
  from b4 have b4': "updateX env doOpt True b3 = Inr (fst res, snd res)" by simp
  have fr: "same_run ?b b5 \<and> XPrev b5 = XPrev ?b"
    using updateGamma_frame [OF b1] updateAlpha_frame [OF b2] updateY_frame [OF b3]
      updateX_frame [OF b4'] updateV_frame [OF b5]
    by (auto simp: same_run_def)
  with f1 have p5: "mParams b5 = mParams a" and s5: "mState b5 = INITIALIZED"
    and i5: "mIterationNumber b5 = mIterationNumber a + 1" and x5: "XPrev b5 = agent_X a1"
    using st1 by (simp_all add: same_run_def)
  from sr p5 i5 acc interval due have "restart"
    by (simp add: shouldRestart_def)
  with b6 have "restartNesterovAcceleration env doOpt b5 = Inr b6" by simp
  from restart_result [OF this] p5 s5 acc obtain s' ar where
    ar: "updateX env doOpt False (b5\<lparr>agent_X := XPrev b5\<rparr>) = Inr (s', ar)"
    and b6': "b6 = ar\<lparr>agent_V := agent_X ar, agent_Y := agent_X ar,
                gamma := Finite 0, alpha := Finite 0\<rparr>"
    by auto
  have "agent_X a' = agent_X ar \<and> agent_V a' = agent_X a' \<and> agent_Y a' = agent_X a' \<and>
           gamma a' = Finite 0 \<and> alpha a' = Finite 0"
    unfolding a' a6 b6' by (simp add: iterate_status_def Let_def)
  moreover from a1 acc1 b1 b2 b3 have "before_updateX env a = Inr b3"
    by (simp add: before_updateX_def accelerate_def ebind_def)
  ultimately show ?thesis
    using a1 b4' b5 x5 ar by blast
qed

theorem iterate_restart_witness:
  "acceleration (mParams accelerated_agent) \<and>
   mState accelerated_agent = INITIALIZED \<and>
   iterate line_env True accelerated_agent =
     Inr (projr (iterate line_env True accelerated_agent)) \<and>
   restartInterval (mParams accelerated_agent) \<noteq> 0 \<and>
   (mIterationNumber accelerated_agent + 1 + 1) mod restartInterval (mParams accelerated_agent) = 0 \<and>
   (\<exists>a1 b3 s0 b4 ab s ar.
      iterate_reweight line_env
        (accelerated_agent\<lparr>mIterationNumber := mIterationNumber accelerated_agent + 1\<rparr>) = Inr a1 \<and>
      before_updateX line_env accelerated_agent = Inr b3 \<and>
      updateX line_env True True b3 = Inr (s0, b4) \<and>
      updateV line_env b4 = Inr ab \<and>
      XPrev ab = agent_X a1 \<and>
      updateX line_env True False (ab\<lparr>agent_X := XPrev ab\<rparr>) = Inr (s, ar) \<and>
      agent_X (projr (iterate line_env True accelerated_agent)) = agent_X ar \<and>
      agent_V (projr (iterate line_env True accelerated_agent)) =
        agent_X (projr (iterate line_env True accelerated_agent)) \<and>
      agent_Y (projr (iterate line_env True accelerated_agent)) =
        agent_X (projr (iterate line_env True accelerated_agent)) \<and>
      gamma (projr (iterate line_env True accelerated_agent)) = Finite 0 \<and>
      alpha (projr (iterate line_env True accelerated_agent)) = Finite 0)"
proof -
  have acc: "acceleration (mParams accelerated_agent)"
    and st: "mState accelerated_agent = INITIALIZED"
    and interval: "restartInterval (mParams accelerated_agent) \<noteq> 0"
    and due: "(mIterationNumber accelerated_agent + 1 + 1)
                mod restartInterval (mParams accelerated_agent) = 0"
    by (simp_all add: line_defs)
  have run: "iterate line_env True accelerated_agent =
      Inr (projr (iterate line_env True accelerated_agent))"
    by (simp add: line_defs run_defs)
  from iterate_restart [OF acc st run interval due] acc st run interval due show ?thesis
    by blast
qed

section \<open>Properties of the neighbour pose cache\<close>


























section \<open>Properties of the constructor\<close>

text \<open>
  C10. Two agents constructed with identifier 0 and the same \<open>r\<close> and \<open>d\<close> hold the
  same lifting matrix, whatever the state of the generator at either construction and
  whatever the other parameters: the matrix is the point drawn right after seeding
  with 1.
\<close>

theorem lifting_matrix_deterministic:
  assumes "new_PGOAgent env rs 0 params1 s1 = Inr (a1, t1)"
    and "new_PGOAgent env rs 0 params2 s2 = Inr (a2, t2)"
    and "params_d params1 = params_d params2"
    and "params_r params1 = params_r params2"
  shows "YLift a1 = YLift a2 \<and>
         YLift a1 = Some (fst (RandInManifold rs (params_r params1) (params_d params1)
                                 (srand rs 1)))"
  using assms
  by (auto simp: new_PGOAgent_def setLiftingMatrix_def fixedStiefelVariable_def
      ebind_Inr_iff Let_def)

theorem lifting_matrix_deterministic_witness:
  "new_PGOAgent line_env toy_random 0 line_params 7 =
     Inr (projr (new_PGOAgent line_env toy_random 0 line_params 7)) \<and>
   new_PGOAgent line_env toy_random 0 (line_params\<lparr>verbose := True\<rparr>) 8 =
     Inr (projr (new_PGOAgent line_env toy_random 0 (line_params\<lparr>verbose := True\<rparr>) 8)) \<and>
   params_d line_params = params_d (line_params\<lparr>verbose := True\<rparr>) \<and>
   params_r line_params = params_r (line_params\<lparr>verbose := True\<rparr>) \<and>
   YLift (fst (projr (new_PGOAgent line_env toy_random 0 line_params 7))) =
     YLift (fst (projr (new_PGOAgent line_env toy_random 0 (line_params\<lparr>verbose := True\<rparr>) 8))) \<and>
   YLift (fst (projr (new_PGOAgent line_env toy_random 0 line_params 7))) =
     Some [[- 1, 0], [0, - 1]]"
proof -
  have ev: "[0..<2] = [0, 1 :: nat]"
    by (simp add: upt_rec)
  have run1: "new_PGOAgent line_env toy_random 0 line_params 7 =
      Inr (fst (projr (new_PGOAgent line_env toy_random 0 line_params 7)),
           snd (projr (new_PGOAgent line_env toy_random 0 line_params 7)))"
    by (simp add: new_PGOAgent_def setLiftingMatrix_def fixedStiefelVariable_def toy_random_def
        line_defs ebind_def CHECK_def Let_def ev)
  have run2: "new_PGOAgent line_env toy_random 0 (line_params\<lparr>verbose := True\<rparr>) 8 =
      Inr (fst (projr (new_PGOAgent line_env toy_random 0 (line_params\<lparr>verbose := True\<rparr>) 8)),
           snd (projr (new_PGOAgent line_env toy_random 0 (line_params\<lparr>verbose := True\<rparr>) 8)))"
    by (simp add: new_PGOAgent_def setLiftingMatrix_def fixedStiefelVariable_def toy_random_def
        line_defs ebind_def CHECK_def Let_def ev)
  have d: "params_d line_params = params_d (line_params\<lparr>verbose := True\<rparr>)"
    and r: "params_r line_params = params_r (line_params\<lparr>verbose := True\<rparr>)"
    by simp_all
  have val: "fst (RandInManifold toy_random (params_r line_params) (params_d line_params)
          (srand toy_random 1)) = [[- 1, 0], [0, - 1]]"
    by (simp add: toy_random_def line_params_def ev)
  from run1 have r1: "new_PGOAgent line_env toy_random 0 line_params 7 =
      Inr (projr (new_PGOAgent line_env toy_random 0 line_params 7))"
    by (simp only: prod.collapse)
  from run2 have r2: "new_PGOAgent line_env toy_random 0 (line_params\<lparr>verbose := True\<rparr>) 8 =
      Inr (projr (new_PGOAgent line_env toy_random 0 (line_params\<lparr>verbose := True\<rparr>) 8))"
    by (simp only: prod.collapse)
  note same = lifting_matrix_deterministic [OF run1 run2 d r]
  from same have "YLift (fst (projr (new_PGOAgent line_env toy_random 0 line_params 7))) =
     YLift (fst (projr (new_PGOAgent line_env toy_random 0 (line_params\<lparr>verbose := True\<rparr>) 8)))"
    by (rule conjunct1)
  moreover from same have "YLift (fst (projr (new_PGOAgent line_env toy_random 0 line_params 7))) =
     Some [[- 1, 0], [0, - 1]]"
    unfolding val by (rule conjunct2)
  ultimately show ?thesis
    using r1 r2 d r by blast
qed

section \<open>Properties of the trajectories\<close>

subsection \<open>Blocks\<close>

lemma wf_mat_mat [simp]: "wf_mat r c (mat r c f)"
  by (simp add: wf_mat_def mat_def list_all_iff)

lemma coeff_mat [simp]: "i < r \<Longrightarrow> j < c \<Longrightarrow> coeff (mat r c f) i j = f i j"
  by (simp add: coeff_def mat_def)

lemma nrows_mat [simp]: "nrows (mat r c f) = r"
  by (simp add: nrows_def mat_def)

lemma ncols_mat [simp]: "0 < r \<Longrightarrow> ncols (mat r c f) = c"
  by (cases r) (simp_all add: ncols_def mat_def upt_conv_Cons del: upt_Suc)














subsection \<open>The rounding loop\<close>





subsection \<open>The two trajectories\<close>


subsection \<open>A robot with two poses\<close>









section \<open>Properties of the g2o reader\<close>

subsection \<open>The loop over the lines\<close>

lemma parse_edge_ids [simp]:
  "is_edge l \<Longrightarrow> p1 (parse_edge num m l) = edge_p1 l"
  "is_edge l \<Longrightarrow> p2 (parse_edge num m l) = edge_p2 l"
  by (induct num m l rule: parse_edge.induct; simp add: Let_def)+

lemma parse_edge_cong:
  "is_edge l \<Longrightarrow> weight x = weight y \<Longrightarrow> isKnownInlier x = isKnownInlier y \<Longrightarrow>
     parse_edge num x l = parse_edge num y l"
  by (induct num x l rule: parse_edge.induct; cases x; cases y; simp add: Let_def)

lemma parse_edge_kept [simp]:
  "weight (parse_edge num m l) = weight m"
  "isKnownInlier (parse_edge num m l) = isKnownInlier m"
  by (induct num m l rule: parse_edge.induct; simp add: Let_def)+

lemma parse_edge_absorb:
  "is_edge l \<Longrightarrow> parse_edge num (parse_edge num m k) l = parse_edge num m l"
  by (rule parse_edge_cong) simp_all

lemma edges_are_edges: "l \<in> set (edges token lines) \<Longrightarrow> is_edge l"
  by (induction lines arbitrary: token) (auto split: option.splits if_splits)

lemma read_lines_recognized:
  assumes "recognized token lines"
  shows "read_lines num token m ids ms lines =
         Inr (ms @ map (parse_edge num m) (edges token lines),
              foldl emplace_ids ids (edges token lines))"
  using assms
proof (induction lines arbitrary: token m ids ms)
  case Nil
  then show ?case by simp
next
  case (Cons line lines)
  define token' where "token' = (if line = Blank then token else Some line)"
  from Cons.prems obtain l where l: "token' = Some l" "l \<noteq> Unrecognized"
    "recognized (Some l) lines" and blank: "l \<noteq> Blank"
    by (cases token') (simp_all add: token'_def [symmetric])
  show ?case
  proof (cases "is_edge l")
    case True
    have "map (parse_edge num (parse_edge num m l)) (edges (Some l) lines) =
          map (parse_edge num m) (edges (Some l) lines)"
      by (rule map_cong [OF refl]) (simp add: parse_edge_absorb edges_are_edges)
    with True show ?thesis
      by (simp add: token'_def [symmetric] l Cons.IH [OF l(3)] Let_def emplace_ids_def)
  next
    case False
    with l(2) have "l = VERTEX_SE2 \<or> l = VERTEX_SE3_QUAT \<or> l = FIX \<or> l = Blank"
      by (cases l) simp_all
    with blank show ?thesis
      using False by (auto simp add: token'_def [symmetric] l Cons.IH [OF l(3)] Let_def)
  qed
qed

lemma reindex_0 [simp]: "reindex 0 = id"
  by (simp add: reindex_def fun_eq_iff)

lemma reindexed_ids:
  "map p1 (map (reindex k) (map (parse_edge num m) (edges token lines))) =
     map (\<lambda>l. edge_p1 l - k) (edges token lines)"
  "map p2 (map (reindex k) (map (parse_edge num m) (edges token lines))) =
     map (\<lambda>l. edge_p2 l - k) (edges token lines)"
  by (simp_all add: reindex_def edges_are_edges)

subsection \<open>The pose identifiers\<close>

lemma emplace_set [simp]: "set (emplace x ids) = insert x (set ids)"
  by (auto simp add: emplace_def set_insort_key)

lemma emplace_sorted: "sorted ids \<Longrightarrow> sorted (emplace x ids)"
  by (simp add: emplace_def sorted_insort)

lemma emplace_distinct: "distinct ids \<Longrightarrow> distinct (emplace x ids)"
  by (simp add: emplace_def distinct_insort)

lemma foldl_emplace_ids:
  assumes "sorted ids" and "distinct ids"
  shows "sorted (foldl emplace_ids ids ls) \<and> distinct (foldl emplace_ids ids ls) \<and>
         set (foldl emplace_ids ids ls) = set ids \<union> (\<Union>l\<in>set ls. {edge_p1 l, edge_p2 l})"
  using assms
proof (induction ls arbitrary: ids)
  case Nil
  then show ?case by simp
next
  case (Cons l ls)
  have "sorted (emplace_ids ids l)" "distinct (emplace_ids ids l)"
    using Cons.prems by (simp_all add: emplace_ids_def emplace_sorted emplace_distinct)
  from Cons.IH [OF this] show ?case
    by (auto simp add: emplace_ids_def)
qed

lemma check_consecutive_result:
  "check_consecutive x xs = Inr () \<or> check_consecutive x xs = Inl Fatal"
  by (induction xs arbitrary: x) auto

lemma unat_successor:
  fixes x y :: size_t
  assumes "x < y"
  shows "y = x + 1 \<longleftrightarrow> unat y = unat x + 1"
proof
  assume y: "y = x + 1"
  from assms have "x \<noteq> - 1"
    by (metis word_order.extremum_strict)
  then have "1 + x \<noteq> 0"
    by (metis add.commute add_eq_0_iff)
  then have "unat (1 + x) = Suc (unat x)"
    by (rule unatSuc)
  then have "unat (x + 1) = unat x + 1"
    by (simp add: add.commute)
  with y show "unat y = unat x + 1" by simp
next
  assume "unat y = unat x + 1"
  then have "of_nat (unat y) = (of_nat (unat x + 1) :: size_t)" by simp
  then show "y = x + 1" by simp
qed

lemma check_consecutive_range:
  assumes "sorted (x # xs)" and "distinct (x # xs)"
  shows "check_consecutive x xs = Inr () \<longleftrightarrow>
         map unat (x # xs) = [unat x..<unat x + Suc (length xs)]"
  using assms
proof (induction xs arbitrary: x)
  case Nil
  then show ?case by simp
next
  case (Cons y ys)
  from Cons.prems have xy: "x < y" by auto
  from Cons.prems have tail: "sorted (y # ys)" "distinct (y # ys)" by auto
  note IH = Cons.IH [OF tail]
  have upt: "[unat x..<unat x + Suc (length (y # ys))] =
      unat x # [unat x + 1..<unat x + 1 + Suc (length ys)]"
    by (subst upt_rec) simp
  show ?case
  proof (cases "y = x + 1")
    case True
    with unat_successor [OF xy] have "unat y = unat x + 1" by simp
    with True IH show ?thesis
      unfolding upt by simp
  next
    case False
    with unat_successor [OF xy] have neq: "unat y \<noteq> unat x + 1" by simp
    define r where "r = [unat x + 1..<unat x + 1 + Suc (length ys)]"
    have "hd r = unat x + 1" "r \<noteq> []"
      unfolding r_def by (simp_all del: upt_Suc)
    with neq have "map unat (y # ys) \<noteq> r"
      by (cases r) auto
    with False show ?thesis
      unfolding upt r_def [symmetric] by simp
  qed
qed

lemma range_of_sorted:
  fixes ids :: "size_t list"
  assumes "sorted ids" and "distinct ids" and "ids \<noteq> []"
  shows "(\<exists>k n. unat ` set ids = {k..<k + n}) \<longleftrightarrow>
         map unat ids = [unat (hd ids)..<unat (hd ids) + length ids]"
    and "unat ` set ids = {k..<k + n} \<Longrightarrow> hd ids = of_nat k \<and> length ids = n"
proof -
  have strict: "sorted_wrt (<) (map unat ids)"
  proof -
    from assms(1,2) have "sorted_wrt (<) ids"
      by (simp add: strict_sorted_iff)
    moreover have "(\<lambda>x y :: size_t. unat x < unat y) = (<)"
      by (simp add: fun_eq_iff word_less_nat_alt)
    ultimately show ?thesis
      by (simp add: sorted_wrt_map)
  qed
  have eq: "map unat ids = [k..<k + n]" if "unat ` set ids = {k..<k + n}" for k n
    by (rule strict_sorted_equal [OF _ strict]) (simp_all add: that)
  show "hd ids = of_nat k \<and> length ids = n" if "unat ` set ids = {k..<k + n}"
  proof -
    from eq [OF that] have m: "map unat ids = [k..<k + n]" .
    then have "length ids = n"
      by (metis add_diff_cancel_left' length_map length_upt)
    moreover from m assms(3) have "unat (hd ids) = k"
      by (metis hd_map hd_upt length_greater_0_conv calculation less_add_same_cancel1)
    then have "of_nat (unat (hd ids)) = (of_nat k :: size_t)"
      by simp
    then have "hd ids = of_nat k"
      by simp
    ultimately show ?thesis by simp
  qed
  show "(\<exists>k n. unat ` set ids = {k..<k + n}) \<longleftrightarrow>
      map unat ids = [unat (hd ids)..<unat (hd ids) + length ids]"
  proof
    assume "\<exists>k n. unat ` set ids = {k..<k + n}"
    then obtain k n where r: "unat ` set ids = {k..<k + n}" by blast
    from eq [OF r] have m: "map unat ids = [k..<k + n]" .
    then have "length ids = n"
      by (metis add_diff_cancel_left' length_map length_upt)
    moreover from m assms(3) this have "unat (hd ids) = k"
      by (metis hd_map hd_upt length_greater_0_conv less_add_same_cancel1)
    ultimately show "map unat ids = [unat (hd ids)..<unat (hd ids) + length ids]"
      using m by simp
  next
    assume "map unat ids = [unat (hd ids)..<unat (hd ids) + length ids]"
    then have "set (map unat ids) = {unat (hd ids)..<unat (hd ids) + length ids}"
      by (metis atLeastLessThan_upt)
    then show "\<exists>k n. unat ` set ids = {k..<k + n}"
      by auto
  qed
qed

text \<open>
  C7. Let every line of the input be recognized and let there be an edge. If the pose
  identifiers of the edges are the integers from \<open>k\<close> to \<open>k + n - 1\<close> then
  \<^verbatim>\<open>read_g2o_file\<close> returns the measurements of the edges, in order, with \<open>k\<close>
  subtracted from both pose identifiers of each: the first pose identifiers of the
  measurements are those of the edges minus \<open>k\<close>, and so are the second ones. And
  \<^verbatim>\<open>num_poses\<close> is the number of distinct pose identifiers. If the pose identifiers are
  no such range, the call aborts. This holds whatever the arithmetic of the precisions.
\<close>

theorem read_g2o_file_reindex:
  assumes rec: "recognized None lines" and ne: "edges None lines \<noteq> []"
  shows "(\<forall>k n. unat ` pose_id_set lines = {k..<k + n} \<longrightarrow>
            (\<exists>measurements.
               read_g2o_file num measurement lines =
                 Inr (measurements, of_nat (card (pose_id_set lines))) \<and>
               measurements =
                 map (reindex (of_nat k))
                   (map (parse_edge num (measurement\<lparr>weight := Finite 1\<rparr>)) (edges None lines)) \<and>
               map p1 measurements = map (\<lambda>l. edge_p1 l - of_nat k) (edges None lines) \<and>
               map p2 measurements = map (\<lambda>l. edge_p2 l - of_nat k) (edges None lines))) \<and>
         ((\<nexists>k n. unat ` pose_id_set lines = {k..<k + n}) \<longrightarrow>
            read_g2o_file num measurement lines = Inl Fatal)"
proof -
  define ids where "ids = foldl emplace_ids [] (edges None lines)"
  define ms where
    "ms = map (parse_edge num (measurement\<lparr>weight := Finite 1\<rparr>)) (edges None lines)"
  have run: "read_lines num None (measurement\<lparr>weight := Finite 1\<rparr>) [] [] lines = Inr (ms, ids)"
    by (simp add: read_lines_recognized [OF rec] ms_def ids_def)
  have inv: "sorted ids" "distinct ids" "set ids = pose_id_set lines"
    using foldl_emplace_ids [of "[]" "edges None lines"]
    by (simp_all add: ids_def pose_id_set_def)
  from ne have "pose_id_set lines \<noteq> {}"
    by (cases "edges None lines") (simp_all add: pose_id_set_def)
  with inv(3) obtain first rest where ids: "ids = first # rest"
    by (cases ids) auto
  have card: "card (pose_id_set lines) = length ids"
    using inv(2,3) distinct_card by metis
  have range: "(\<exists>k n. unat ` pose_id_set lines = {k..<k + n}) \<longleftrightarrow>
      check_consecutive first rest = Inr ()"
    using range_of_sorted(1) [OF inv(1,2)] check_consecutive_range [of first rest] inv(1,2)
    by (simp add: ids inv(3) [symmetric])
  have whole: "read_g2o_file num measurement lines =
      ebind (check_consecutive first rest) (\<lambda>_.
        Inr (if first \<noteq> 0 then map (reindex first) ms else ms, of_nat (length ids)))"
    by (simp add: read_g2o_file_def run ebind_def ids Let_def)
  have range_case: "read_g2o_file num measurement lines =
      Inr (map (reindex (of_nat k)) ms, of_nat (card (pose_id_set lines)))"
    if r: "unat ` pose_id_set lines = {k..<k + n}" for k n
  proof -
    from r range have ok: "check_consecutive first rest = Inr ()"
      by blast
    from range_of_sorted(2) [OF inv(1,2), of k n] r have "first = of_nat k"
      by (simp add: ids inv(3) [symmetric])
    with ok show ?thesis
      by (simp add: whole ebind_def card)
  qed
  have gap_case: "read_g2o_file num measurement lines = Inl Fatal"
    if "\<nexists>k n. unat ` pose_id_set lines = {k..<k + n}"
  proof -
    from that range have "check_consecutive first rest \<noteq> Inr ()"
      by blast
    with check_consecutive_result [of first rest]
    have "check_consecutive first rest = Inl Fatal"
      by blast
    then show ?thesis
      by (simp add: whole ebind_def)
  qed
  have ends: "map p1 (map (reindex k) ms) = map (\<lambda>l. edge_p1 l - k) (edges None lines)"
    "map p2 (map (reindex k) ms) = map (\<lambda>l. edge_p2 l - k) (edges None lines)" for k
    unfolding ms_def by (rule reindexed_ids)+
  show ?thesis
  proof (intro conjI allI impI)
    fix k n assume "unat ` pose_id_set lines = {k..<k + n}"
    from range_case [OF this] ends [of "of_nat k"]
    show "\<exists>measurements.
        read_g2o_file num measurement lines =
          Inr (measurements, of_nat (card (pose_id_set lines))) \<and>
        measurements =
          map (reindex (of_nat k))
            (map (parse_edge num (measurement\<lparr>weight := Finite 1\<rparr>)) (edges None lines)) \<and>
        map p1 measurements = map (\<lambda>l. edge_p1 l - of_nat k) (edges None lines) \<and>
        map p2 measurements = map (\<lambda>l. edge_p2 l - of_nat k) (edges None lines)"
      unfolding ms_def by (intro exI conjI) (assumption | rule refl)+
  next
    assume "\<nexists>k n. unat ` pose_id_set lines = {k..<k + n}"
    then show "read_g2o_file num measurement lines = Inl Fatal"
      by (rule gap_case)
  qed
qed

lemma planar_edge_ids [simp]:
  "edge_p1 (planar_edge i j) = i" "edge_p2 (planar_edge i j) = j"
  by (simp_all add: planar_edge_def)

lemma planar_edge_is_edge [simp]: "is_edge (planar_edge i j)" "planar_edge i j \<noteq> Blank"
  "planar_edge i j \<noteq> Unrecognized"
  by (simp_all add: planar_edge_def)

lemma chain_ids:
  "pose_id_set [planar_edge 5 6, planar_edge 6 7, planar_edge 7 8] = {5, 6, 7, 8}"
  "pose_id_set [planar_edge 5 6, planar_edge 8 9] = {5, 6, 8, 9}"
  by (auto simp add: pose_id_set_def)

lemma chain_range: "unat ` {5, 6, 7, 8 :: size_t} = {5..<5 + 4}"
  by auto

lemma gap_no_range: "\<nexists>k n. unat ` {5, 6, 8, 9 :: size_t} = {k..<k + n}"
proof
  assume "\<exists>k n. unat ` {5, 6, 8, 9 :: size_t} = {k..<k + n}"
  then obtain k n where r: "{5, 6, 8, 9 :: nat} = {k..<k + n}"
    by auto
  then have "5 \<in> {k..<k + n}" "9 \<in> {k..<k + n}"
    by blast+
  then have "(7::nat) \<in> {k..<k + n}"
    by simp
  with r have "(7::nat) \<in> {5, 6, 8, 9}"
    by simp
  then show False
    by simp
qed

lemma parse_planar:
  "parse_edge exact_numerics (default_measurement\<lparr>weight := Finite 1\<rparr>) (planar_edge i j) =
     planar_measurement i j"
  by code_simp

lemma reindex_planar: "reindex k (planar_measurement i j) = planar_measurement (i - k) (j - k)"
  by (simp add: reindex_def planar_measurement_def)

text \<open>
  The theorem at a chain over the poses 5 to 8, which is read as a chain over the
  poses 0 to 3, and at an input with the poses 5, 6, 8 and 9, which aborts.
\<close>

theorem read_g2o_file_reindex_witness:
  "recognized None [planar_edge 5 6, planar_edge 6 7, planar_edge 7 8] \<and>
   edges None [planar_edge 5 6, planar_edge 6 7, planar_edge 7 8] \<noteq> [] \<and>
   unat ` pose_id_set [planar_edge 5 6, planar_edge 6 7, planar_edge 7 8] = {5..<5 + 4} \<and>
   read_g2o_file exact_numerics default_measurement
       [planar_edge 5 6, planar_edge 6 7, planar_edge 7 8] =
     Inr ([planar_measurement 0 1, planar_measurement 1 2, planar_measurement 2 3], 4) \<and>
   map p1 [planar_measurement 0 1, planar_measurement 1 2, planar_measurement 2 3] = [0, 1, 2] \<and>
   map p2 [planar_measurement 0 1, planar_measurement 1 2, planar_measurement 2 3] = [1, 2, 3] \<and>
   recognized None [planar_edge 5 6, planar_edge 8 9] \<and>
   edges None [planar_edge 5 6, planar_edge 8 9] \<noteq> [] \<and>
   (\<nexists>k n. unat ` pose_id_set [planar_edge 5 6, planar_edge 8 9] = {k..<k + n}) \<and>
   read_g2o_file exact_numerics default_measurement [planar_edge 5 6, planar_edge 8 9] =
     Inl Fatal"
proof -
  let ?A = "[planar_edge 5 6, planar_edge 6 7, planar_edge 7 8]"
  let ?B = "[planar_edge 5 6, planar_edge 8 9]"
  have A: "recognized None ?A" "edges None ?A \<noteq> []"
    and B: "recognized None ?B" "edges None ?B \<noteq> []"
    by simp_all
  have rA: "unat ` pose_id_set ?A = {5..<5 + 4}"
    unfolding chain_ids by (rule chain_range)
  have rB: "\<nexists>k n. unat ` pose_id_set ?B = {k..<k + n}"
    unfolding chain_ids by (rule gap_no_range)
  have card: "card (pose_id_set ?A) = 4"
    by (simp add: chain_ids)
  from read_g2o_file_reindex [OF A, of exact_numerics default_measurement] rA
  have "\<exists>measurements.
      read_g2o_file exact_numerics default_measurement ?A =
        Inr (measurements, of_nat (card (pose_id_set ?A))) \<and>
      measurements =
        map (reindex (of_nat 5))
          (map (parse_edge exact_numerics (default_measurement\<lparr>weight := Finite 1\<rparr>))
             (edges None ?A)) \<and>
      map p1 measurements = map (\<lambda>l. edge_p1 l - of_nat 5) (edges None ?A) \<and>
      map p2 measurements = map (\<lambda>l. edge_p2 l - of_nat 5) (edges None ?A)"
    by blast
  then have runA: "read_g2o_file exact_numerics default_measurement ?A =
      Inr ([planar_measurement 0 1, planar_measurement 1 2, planar_measurement 2 3], 4)"
    by (simp add: card parse_planar reindex_planar)
  have ids: "map p1 [planar_measurement 0 1, planar_measurement 1 2, planar_measurement 2 3] =
        [0, 1, 2]"
    "map p2 [planar_measurement 0 1, planar_measurement 1 2, planar_measurement 2 3] =
        [1, 2, 3]"
    by (simp_all add: planar_measurement_def)
  from read_g2o_file_reindex [OF B, of exact_numerics default_measurement] rB
  have runB: "read_g2o_file exact_numerics default_measurement ?B = Inl Fatal"
    by blast
  from A B rA rB runA runB ids show ?thesis
    by blast
qed

end
